theory Spec2Isabelle
  imports Complex_Main
begin

section \<open>The reasoning agent of \<^verbatim>\<open>agent-js/reasoning_agent.js\<close>\<close>

text \<open>
  A shallow embedding of the turn loop of \<^verbatim>\<open>ReasoningAgentJS\<close>: the tool schema
  builder, the extraction of the chosen action from a model response, the submission of
  an action to the game backend, and the main loop with its sliding window of turns.

  The two remote services (the model endpoint and the game backend) and the renderer are
  parameters of the model. A remote call takes the state of the outside world and the
  request, and returns either a thrown error or a response, together with the new state
  of the world. The console is part of the modelled state, so that what the program
  prints can be stated.

  A response of either service is taken to be an object, with fields that may be
  missing. Left out are what no branch of the loop reads: the token accounting, the
  model name and the reasoning effort, the layout of the prompt texts, and the dump of
  the messages to a file.
\<close>

subsection \<open>Constants\<close>

definition MAX_ACTIONS :: nat where
  "MAX_ACTIONS = 400"

definition MESSAGE_LIMIT :: nat where
  "MESSAGE_LIMIT = 5"

text \<open>\<^verbatim>\<open>ACTION_NAME_BY_ID\<close>: a lookup that is \<^verbatim>\<open>undefined\<close> outside 0..7.\<close>

definition ACTION_NAME_BY_ID :: "int \<Rightarrow> string option" where
  "ACTION_NAME_BY_ID i =
     (if i = 0 then Some ''RESET''
      else if i = 1 then Some ''ACTION1''
      else if i = 2 then Some ''ACTION2''
      else if i = 3 then Some ''ACTION3''
      else if i = 4 then Some ''ACTION4''
      else if i = 5 then Some ''ACTION5''
      else if i = 6 then Some ''ACTION6''
      else if i = 7 then Some ''ACTION7''
      else None)"

subsection \<open>The tool schema (\<^verbatim>\<open>buildReasoningTools\<close>)\<close>

datatype json_type = TString | TInteger | TNull | TObject

text \<open>
  One entry of \<^verbatim>\<open>properties\<close>. A keyword that the source does not write for an entry
  is \<open>None\<close>.
\<close>

record prop_schema =
  ps_type :: "json_type list"
  ps_description :: string
  ps_minLength :: "nat option"
  ps_maxLength :: "nat option"
  ps_enum :: "string list option"
  ps_minimum :: "int option"
  ps_maximum :: "int option"

text \<open>
  \<^verbatim>\<open>properties\<close> is a JavaScript object: an association list in insertion order, with
  distinct keys.
\<close>

record parameters =
  par_type :: json_type
  par_properties :: "(string \<times> prop_schema) list"
  par_required :: "string list"
  par_additionalProperties :: bool

record tool =
  tool_type :: string
  tool_name :: string
  tool_description :: string
  tool_parameters :: parameters
  tool_strict :: bool

text \<open>\<^verbatim>\<open>names.join(', ')\<close>\<close>

fun join_comma :: "string list \<Rightarrow> string" where
  "join_comma [] = ''''"
| "join_comma [n] = n"
| "join_comma (n # m # ns) = n @ '', '' @ join_comma (m # ns)"

definition string_prop :: "string \<Rightarrow> nat \<Rightarrow> nat \<Rightarrow> prop_schema" where
  "string_prop d lo hi =
     \<lparr>ps_type = [TString], ps_description = d, ps_minLength = Some lo,
      ps_maxLength = Some hi, ps_enum = None, ps_minimum = None, ps_maximum = None\<rparr>"

definition coord_prop :: "string \<Rightarrow> prop_schema" where
  "coord_prop d =
     \<lparr>ps_type = [TInteger, TNull], ps_description = d, ps_minLength = None,
      ps_maxLength = None, ps_enum = None, ps_minimum = Some 0, ps_maximum = Some 63\<rparr>"

definition base_properties :: "string list \<Rightarrow> (string \<times> prop_schema) list" where
  "base_properties allowedNames =
     [(''reason'', string_prop ''Detailed reasoning for choosing this action'' 10 2000),
      (''short_description'', string_prop ''Brief description of the action'' 5 500),
      (''hypothesis'', string_prop ''Current hypothesis about game mechanics'' 10 2000),
      (''aggregated_findings'',
         string_prop ''Summary of discoveries and learnings so far'' 10 2000),
      (''action'',
         \<lparr>ps_type = [TString],
          ps_description = ''Choose one of: '' @ join_comma allowedNames,
          ps_minLength = None, ps_maxLength = None, ps_enum = Some allowedNames,
          ps_minimum = None, ps_maximum = None\<rparr>)]"

definition x_description :: string where
  "x_description =
     ''Required when action==ACTION6. X coordinate in [0,63]; otherwise null.''"

definition y_description :: string where
  "y_description =
     ''Required when action==ACTION6. Y coordinate in [0,63]; otherwise null.''"

text \<open>
  The source creates \<^verbatim>\<open>parameters\<close> with a reference to the \<^verbatim>\<open>properties\<close> object and
  then, when \<^verbatim>\<open>ACTION6\<close> is allowed, adds \<^verbatim>\<open>x\<close> and \<^verbatim>\<open>y\<close> to that same object and
  pushes both names onto \<^verbatim>\<open>parameters.required\<close>. The returned schema therefore has the
  extended property list. The argument is the list the caller passes; the default of
  the JavaScript parameter is \<open>buildReasoningTools_default\<close>.
\<close>

definition buildReasoningTools :: "string list \<Rightarrow> tool list" where
  "buildReasoningTools allowedNames =
     (let properties = base_properties allowedNames;
          required = [''reason'', ''short_description'', ''hypothesis'',
                      ''aggregated_findings'', ''action''];
          withXY = (''ACTION6'' \<in> set allowedNames);
          properties' = (if withXY
                         then properties @ [(''x'', coord_prop x_description),
                                            (''y'', coord_prop y_description)]
                         else properties);
          required' = (if withXY then required @ [''x'', ''y''] else required)
      in [\<lparr>tool_type = ''function'',
           tool_name = ''choose_action'',
           tool_description =
             ''Choose exactly one game action from ['' @ join_comma allowedNames
               @ ''] and justify it.''
               @ (if withXY then '' If ACTION6, include integer x,y in [0,63].'' else ''''),
           tool_parameters =
             \<lparr>par_type = TObject, par_properties = properties',
              par_required = required', par_additionalProperties = False\<rparr>,
           tool_strict = True\<rparr>])"

definition buildReasoningTools_default :: "tool list" where
  "buildReasoningTools_default =
     buildReasoningTools [''ACTION1'', ''ACTION2'', ''ACTION3'', ''ACTION4'']"

subsection \<open>JSON values and the model response\<close>

text \<open>
  A JavaScript number as \<^verbatim>\<open>JSON.parse\<close> can produce it: a finite value (every finite
  double is a rational, so its mathematical value is kept) or one of the two infinities
  (\<^verbatim>\<open>JSON.parse('1e999')\<close>). \<^verbatim>\<open>NaN\<close> never comes out of \<^verbatim>\<open>JSON.parse\<close>.
\<close>

datatype jsnum = Num real | PosInfinity | NegInfinity

datatype json =
    JNull
  | JBool bool
  | JNum jsnum
  | JStr string
  | JArr "json list"
  | JObj "(string \<times> json) list"

text \<open>
  The \<^verbatim>\<open>arguments\<close> field of an output item, seen through \<^verbatim>\<open>JSON.parse\<close>: missing or the
  empty string (falsy, not parsed), a text on which \<^verbatim>\<open>JSON.parse\<close> throws, or a text that
  parses to a value.
\<close>

datatype raw_arguments = NoArguments | Unparsable | Parses json

record item =
  item_type :: string
  arguments :: raw_arguments
  call_id :: "string option"

text \<open>The response object; \<^verbatim>\<open>output\<close> may be missing.\<close>

record response =
  resp_output :: "item list option"

text \<open>JavaScript truthiness of a parsed value.\<close>

fun truthy :: "json \<Rightarrow> bool" where
  "truthy JNull = False"
| "truthy (JBool b) = b"
| "truthy (JNum (Num r)) = (r \<noteq> 0)"
| "truthy (JNum PosInfinity) = True"
| "truthy (JNum NegInfinity) = True"
| "truthy (JStr s) = (s \<noteq> [])"
| "truthy (JArr xs) = True"
| "truthy (JObj kvs) = True"

text \<open>
  \<^verbatim>\<open>args.k\<close> for one of the keys the source reads (\<^verbatim>\<open>action\<close>, \<^verbatim>\<open>x\<close>, \<^verbatim>\<open>y\<close>, \<^verbatim>\<open>reason\<close>,
  ...): the own property of an object, \<^verbatim>\<open>undefined\<close> (\<open>None\<close>) on a missing key and on
  every value that is not an object; none of these keys is inherited by an array, a
  string, a number or a boolean.
\<close>

fun get_prop :: "json \<Rightarrow> string \<Rightarrow> json option" where
  "get_prop (JObj kvs) k = map_of kvs k"
| "get_prop _ k = None"

text \<open>\<^verbatim>\<open>item.arguments ? JSON.parse(item.arguments) || {} : {}\<close> inside \<^verbatim>\<open>try\<close>/\<^verbatim>\<open>catch\<close>.\<close>

definition parse_args :: "raw_arguments \<Rightarrow> json" where
  "parse_args a =
     (case a of
        NoArguments \<Rightarrow> JObj []
      | Unparsable \<Rightarrow> JObj []
      | Parses v \<Rightarrow> (if truthy v then v else JObj []))"

text \<open>\<^verbatim>\<open>v || ''\<close> on a property that may be \<^verbatim>\<open>undefined\<close>.\<close>

definition or_empty :: "json option \<Rightarrow> json" where
  "or_empty v = (case v of None \<Rightarrow> JStr [] | Some j \<Rightarrow> (if truthy j then j else JStr []))"

text \<open>\<^verbatim>\<open>s || null\<close> on an optional string.\<close>

definition or_null :: "string option \<Rightarrow> string option" where
  "or_null v = (case v of None \<Rightarrow> None | Some s \<Rightarrow> (if s = [] then None else Some s))"

subsection \<open>Coordinates\<close>

text \<open>\<^verbatim>\<open>Math.trunc\<close>: rounding towards zero; the infinities stay.\<close>

datatype extint = Fin int | PInf | NInf

fun js_trunc :: "jsnum \<Rightarrow> extint" where
  "js_trunc (Num r) = Fin (if 0 \<le> r then \<lfloor>r\<rfloor> else \<lceil>r\<rceil>)"
| "js_trunc PosInfinity = PInf"
| "js_trunc NegInfinity = NInf"

text \<open>\<^verbatim>\<open>Math.min(63, Math.max(0, t))\<close>\<close>

fun clamp63 :: "extint \<Rightarrow> int" where
  "clamp63 (Fin i) = min 63 (max 0 i)"
| "clamp63 PInf = 63"
| "clamp63 NInf = 0"

text \<open>\<^verbatim>\<open>typeof args.x === 'number' ? args.x : null\<close>\<close>

definition number_or_null :: "json option \<Rightarrow> jsnum option" where
  "number_or_null v = (case v of Some (JNum n) \<Rightarrow> Some n | _ \<Rightarrow> None)"

text \<open>A line written with \<^verbatim>\<open>console.warn\<close>; the only one tells the game id.\<close>

datatype warning = Action6WithoutXY string

text \<open>
  The branch \<^verbatim>\<open>if (actionName === 'ACTION6')\<close> of \<^verbatim>\<open>callOpenAI\<close>: the coordinate pair
  kept for submission, and the warnings written with \<^verbatim>\<open>console.warn\<close>.
\<close>

definition action6_data :: "string \<Rightarrow> json \<Rightarrow> (int \<times> int) option \<times> warning list" where
  "action6_data gid args =
     (let x = number_or_null (get_prop args ''x'');
          y = number_or_null (get_prop args ''y'')
      in case (x, y) of
           (Some xv, Some yv) \<Rightarrow> (Some (clamp63 (js_trunc xv), clamp63 (js_trunc yv)), [])
         | _ \<Rightarrow> (Some (0, 0), [Action6WithoutXY gid]))"

text \<open>What the loop over \<^verbatim>\<open>response.output\<close> leaves in its four variables.\<close>

record picked =
  pk_actionName :: string
  pk_args :: json
  pk_functionCallId :: "string option"
  pk_actionData :: "(int \<times> int) option"
  pk_warnings :: "warning list"

text \<open>
  The body of the loop for the first item of type \<^verbatim>\<open>function_call\<close>; the loop breaks
  after it.
\<close>

definition pick_item :: "string \<Rightarrow> item \<Rightarrow> picked" where
  "pick_item gid it =
     (let args = parse_args (arguments it);
          actionName = (case get_prop args ''action'' of
                          Some (JStr a) \<Rightarrow> a
                        | _ \<Rightarrow> ''RESET'');
          functionCallId = or_null (call_id it);
          (actionData, warns) = (if actionName = ''ACTION6'' then action6_data gid args
                                 else (None, []))
      in \<lparr>pk_actionName = actionName, pk_args = args, pk_functionCallId = functionCallId,
          pk_actionData = actionData, pk_warnings = warns\<rparr>)"

text \<open>
  \<^verbatim>\<open>for (const item of response.output || [])\<close>, with the initial values
  \<^verbatim>\<open>actionName = 'RESET'\<close>, \<^verbatim>\<open>args = {}\<close>, \<^verbatim>\<open>functionCallId = null\<close>, \<^verbatim>\<open>actionData = null\<close>.
\<close>

fun pick_function_call :: "string \<Rightarrow> item list \<Rightarrow> picked" where
  "pick_function_call gid [] =
     \<lparr>pk_actionName = ''RESET'', pk_args = JObj [], pk_functionCallId = None,
      pk_actionData = None, pk_warnings = []\<rparr>"
| "pick_function_call gid (it # rest) =
     (if item_type it = ''function_call'' then pick_item gid it
      else pick_function_call gid rest)"

subsection \<open>Frames, messages and the agent\<close>

type_synonym grid = "int list list"

text \<open>
  The body of a backend response, an object whose fields may be missing. \<open>f_frame\<close> is
  \<open>None\<close> when \<^verbatim>\<open>frame\<close> is not an array, \<open>f_available_actions\<close> likewise.
\<close>

record frame =
  f_frame :: "grid list option"
  f_score :: "int option"
  f_state :: "string option"
  f_full_reset :: "bool option"
  f_guid :: "string option"
  f_available_actions :: "int list option"

text \<open>
  The user message of a turn. Its text is laid out from the allowed names and the raw
  grids, its image is the rendered current grid; the layout of the text is not modelled.
\<close>

record 'img user_message =
  um_allowed :: "string list"
  um_grids :: "grid list"
  um_image :: 'img

text \<open>
  The tool output of a turn: the fields of the object passed to \<^verbatim>\<open>JSON.stringify\<close>
  (\<^verbatim>\<open>status\<close> is always \<^verbatim>\<open>'success'\<close>).
\<close>

record tool_output =
  to_call_id :: string
  to_action :: string
  to_xy :: "(int \<times> int) option"
  to_score :: int
  to_state :: string
  to_full_reset :: bool

datatype 'img message =
    UserMessage "'img user_message"
  | OutputItem item
  | ToolOutput tool_output

record history_entry =
  he_name :: string
  he_reason :: json
  he_short_description :: json
  he_hypothesis :: json
  he_aggregated_findings :: json

record game_context =
  gc_score :: int
  gc_state :: string
  gc_action_counter :: nat
  gc_frame_count :: nat

text \<open>
  The reasoning metadata sent with an action. The model name, the agent type, the effort
  and the token counts are constants or sums that no control flow reads; they are left
  out, with the token accounting of \<^verbatim>\<open>callOpenAI\<close>.
\<close>

record meta =
  m_hypothesis :: "json option"
  m_aggregated_findings :: "json option"
  m_response_preview :: json
  m_action_chosen :: string
  m_game_context :: game_context

text \<open>The body of a request to \<^verbatim>\<open>/api/cmd/...\<close>; a key that is not set is \<open>None\<close>.\<close>

record payload =
  p_game_id :: string
  p_guid :: "string option"
  p_card_id :: "string option"
  p_reasoning :: "meta option"
  p_x :: "int option"
  p_y :: "int option"

text \<open>
  The request to the model: the names from which the instructions are written, the tool
  schema and the input messages.
\<close>

record 'img create_payload =
  cp_instructions :: "string list"
  cp_tools :: "tool list"
  cp_input :: "'img message list"

datatype error = Thrown string | TypeError

text \<open>The renderer and the two remote services.\<close>

record ('img, 'w) env =
  gridToPngBase64 :: "grid \<Rightarrow> 'img"
  responses_create :: "'w \<Rightarrow> 'img create_payload \<Rightarrow> (error + response) \<times> 'w"
  arc_post :: "'w \<Rightarrow> string \<Rightarrow> payload \<Rightarrow> (error + frame) \<times> 'w"

datatype console_line =
    LogReset "int option" "string option"
  | LogWin nat
  | LogAllowed "string list"
  | LogTokens
  | Warn warning
  | LogAction string "int option" "string option"

text \<open>
  The fields of \<^verbatim>\<open>ReasoningAgentJS\<close> that the loop reads or writes, with the console and
  the state of the outside world.
\<close>

record ('img, 'w) agent =
  gameId :: string
  cardId :: "string option"
  guid :: string
  frames :: "frame list"
  history :: "history_entry list"
  screenHistory :: "'img list"
  actionCounter :: nat
  turns :: "'img message list list"
  console :: "console_line list"
  world :: 'w

text \<open>The constructor.\<close>

definition new_agent :: "string \<Rightarrow> string option \<Rightarrow> 'w \<Rightarrow> ('img, 'w) agent" where
  "new_agent gid cid w =
     \<lparr>gameId = gid, cardId = cid, guid = [], frames = [], history = [],
      screenHistory = [], actionCounter = 0, turns = [], console = [], world = w\<rparr>"

definition clearHistory :: "('img, 'w) agent \<Rightarrow> ('img, 'w) agent" where
  "clearHistory s = s\<lparr>history := [], screenHistory := []\<rparr>"

subsection \<open>The window of turns\<close>

text \<open>
  \<^verbatim>\<open>xs.slice(start)\<close> as ECMAScript defines it: a negative start counts from the end, and
  the result starts at an index between 0 and the length.
\<close>

definition js_slice :: "int \<Rightarrow> 'a list \<Rightarrow> 'a list" where
  "js_slice start xs =
     (let len = int (length xs);
          k = (if start < 0 then max (len + start) 0 else min start len)
      in drop (nat k) xs)"

text \<open>\<^verbatim>\<open>flattenTurns\<close> for a limit \<open>cap\<close>.\<close>

definition flatten_last :: "nat \<Rightarrow> 'a list list \<Rightarrow> 'a list" where
  "flatten_last cap ts =
     (let start = max 0 (int (length ts) - int cap)
      in concat (js_slice start ts))"

definition flattenTurns :: "('img, 'w) agent \<Rightarrow> 'img message list" where
  "flattenTurns s = flatten_last MESSAGE_LIMIT (turns s)"

text \<open>
  \<^verbatim>\<open>if (turns.length > cap) turns = turns.slice(-cap)\<close>; for \<open>cap = 0\<close> the argument of
  \<^verbatim>\<open>slice\<close> is \<^verbatim>\<open>-0\<close>, which is not negative.
\<close>

definition enforce_limit :: "nat \<Rightarrow> 'a list \<Rightarrow> 'a list" where
  "enforce_limit cap ts = (if length ts > cap then js_slice (- int cap) ts else ts)"

text \<open>\<^verbatim>\<open>turns.push(t)\<close> followed by the enforcement of the limit.\<close>

definition push_turn :: "nat \<Rightarrow> 'a list list \<Rightarrow> 'a list \<Rightarrow> 'a list list" where
  "push_turn cap ts t = enforce_limit cap (ts @ [t])"

subsection \<open>Submitting an action (\<^verbatim>\<open>doAction\<close>)\<close>

definition request_payload ::
  "string \<Rightarrow> meta option \<Rightarrow> (int \<times> int) option \<Rightarrow> ('img, 'w) agent \<Rightarrow> payload" where
  "request_payload actionName reasoningMeta actionData s =
     \<lparr>p_game_id = gameId s,
      p_guid = (if guid s \<noteq> [] then Some (guid s) else None),
      p_card_id = (if actionName = ''RESET'' \<and> or_null (cardId s) \<noteq> None
                   then cardId s else None),
      p_reasoning = reasoningMeta,
      p_x = (if actionName = ''ACTION6'' then map_option fst actionData else None),
      p_y = (if actionName = ''ACTION6'' then map_option snd actionData else None)\<rparr>"

text \<open>
  A thrown error leaves the agent as it is; a response with a truthy \<^verbatim>\<open>guid\<close> replaces
  the stored one.
\<close>

definition doAction ::
  "('img, 'w) env \<Rightarrow> string \<Rightarrow> meta option \<Rightarrow> (int \<times> int) option \<Rightarrow> ('img, 'w) agent
     \<Rightarrow> (error + frame) \<times> ('img, 'w) agent" where
  "doAction env actionName reasoningMeta actionData s =
     (let basePayload = request_payload actionName reasoningMeta actionData s;
          url = ''/api/cmd/'' @ actionName;
          (res, w) = arc_post env (world s) url basePayload
      in case res of
           Inl e \<Rightarrow> (Inl e, s\<lparr>world := w\<rparr>)
         | Inr data \<Rightarrow>
             (Inr data,
              s\<lparr>world := w,
                guid := (case or_null (f_guid data) of Some g \<Rightarrow> g | None \<Rightarrow> guid s)\<rparr>))"

subsection \<open>Asking the model (\<^verbatim>\<open>callOpenAI\<close>)\<close>

text \<open>
  The allowed names of a turn: the names of the frame's \<^verbatim>\<open>available_actions\<close> (unknown
  ids dropped by \<^verbatim>\<open>filter(Boolean)\<close>), or the four default names when the frame has none,
  and \<^verbatim>\<open>RESET\<close> pushed at the end.
\<close>

definition allowed_names :: "frame option \<Rightarrow> string list" where
  "allowed_names latestFrame =
     (let allowedIds = (case latestFrame of None \<Rightarrow> None | Some f \<Rightarrow> f_available_actions f);
          names = (case allowedIds of
                     None \<Rightarrow> [''ACTION1'', ''ACTION2'', ''ACTION3'', ''ACTION4'']
                   | Some ids \<Rightarrow>
                       (if ids \<noteq> []
                        then map the (filter (\<lambda>n. n \<noteq> None) (map ACTION_NAME_BY_ID ids))
                        else [''ACTION1'', ''ACTION2'', ''ACTION3'', ''ACTION4'']))
      in names @ [''RESET''])"

definition user_message_of :: "frame option \<Rightarrow> 'img \<Rightarrow> 'img user_message" where
  "user_message_of latestFrame currentScreenB64 =
     \<lparr>um_allowed = allowed_names latestFrame,
      um_grids = (case latestFrame of
                    None \<Rightarrow> []
                  | Some f \<Rightarrow> (case f_frame f of None \<Rightarrow> [] | Some gs \<Rightarrow> gs)),
      um_image = currentScreenB64\<rparr>"

text \<open>\<^verbatim>\<open>messagesInput = [...this.flattenTurns(), userMessage]\<close> inside \<^verbatim>\<open>createPayload\<close>.\<close>

definition build_request ::
  "frame option \<Rightarrow> 'img \<Rightarrow> ('img, 'w) agent \<Rightarrow> 'img create_payload" where
  "build_request latestFrame currentScreenB64 s =
     (let allowedNames = allowed_names latestFrame;
          userMessage = user_message_of latestFrame currentScreenB64;
          messagesInput = flattenTurns s @ [UserMessage userMessage]
      in \<lparr>cp_instructions = allowedNames,
          cp_tools = buildReasoningTools allowedNames,
          cp_input = messagesInput\<rparr>)"

text \<open>
  \<^verbatim>\<open>(args.reason || '').slice(0, 200)\<close>: a string and an array have \<^verbatim>\<open>slice\<close>; on any
  other truthy value the call throws a \<^verbatim>\<open>TypeError\<close>.
\<close>

definition slice_0_200 :: "json \<Rightarrow> error + json" where
  "slice_0_200 v =
     (case v of
        JStr s \<Rightarrow> Inr (JStr (take 200 s))
      | JArr xs \<Rightarrow> Inr (JArr (take 200 xs))
      | _ \<Rightarrow> Inl TypeError)"

text \<open>What \<^verbatim>\<open>callOpenAI\<close> returns.\<close>

record 'img decision =
  d_actionName :: string
  d_meta :: meta
  d_historyEntry :: history_entry
  d_actionData :: "(int \<times> int) option"
  d_responseOutputItems :: "item list option"
  d_userMessage :: "'img user_message"
  d_functionCallId :: "string option"

text \<open>The part of \<^verbatim>\<open>callOpenAI\<close> after the response has arrived.\<close>

definition read_response ::
  "frame option \<Rightarrow> 'img user_message \<Rightarrow> response \<Rightarrow> ('img, 'w) agent
     \<Rightarrow> (error + 'img decision) \<times> ('img, 'w) agent" where
  "read_response latestFrame userMessage resp s =
     (let s1 = s\<lparr>console := console s @ [LogTokens]\<rparr>;
          pk = pick_function_call (gameId s)
                 (case resp_output resp of None \<Rightarrow> [] | Some its \<Rightarrow> its);
          s2 = s1\<lparr>console := console s1 @ map Warn (pk_warnings pk)\<rparr>;
          args = pk_args pk
      in case slice_0_200 (or_empty (get_prop args ''reason'')) of
           Inl e \<Rightarrow> (Inl e, s2)
         | Inr preview \<Rightarrow>
             (Inr \<lparr>d_actionName = pk_actionName pk,
                   d_meta =
                     \<lparr>m_hypothesis = Some (or_empty (get_prop args ''hypothesis'')),
                      m_aggregated_findings =
                        Some (or_empty (get_prop args ''aggregated_findings'')),
                      m_response_preview = preview,
                      m_action_chosen = pk_actionName pk,
                      m_game_context =
                        \<lparr>gc_score = (case latestFrame of
                                       None \<Rightarrow> 0
                                     | Some f \<Rightarrow> (case f_score f of None \<Rightarrow> 0 | Some n \<Rightarrow> n)),
                         gc_state = (case latestFrame of
                                       None \<Rightarrow> ''NOT_PLAYED''
                                     | Some f \<Rightarrow> (case f_state f of
                                                   None \<Rightarrow> ''NOT_PLAYED''
                                                 | Some st \<Rightarrow> st)),
                         gc_action_counter = actionCounter s,
                         gc_frame_count = length (frames s)\<rparr>\<rparr>,
                   d_historyEntry =
                     \<lparr>he_name = pk_actionName pk,
                      he_reason = or_empty (get_prop args ''reason''),
                      he_short_description = or_empty (get_prop args ''short_description''),
                      he_hypothesis = or_empty (get_prop args ''hypothesis''),
                      he_aggregated_findings =
                        or_empty (get_prop args ''aggregated_findings'')\<rparr>,
                   d_actionData = pk_actionData pk,
                   d_responseOutputItems = resp_output resp,
                   d_userMessage = userMessage,
                   d_functionCallId = pk_functionCallId pk\<rparr>,
              s2))"

text \<open>
  \<^verbatim>\<open>previousScreenB64\<close> is a parameter that the source never reads. A thrown error of the
  request ends the call before anything but the console has changed.
\<close>

definition callOpenAI ::
  "('img, 'w) env \<Rightarrow> frame option \<Rightarrow> 'img option \<Rightarrow> 'img \<Rightarrow> ('img, 'w) agent
     \<Rightarrow> (error + 'img decision) \<times> ('img, 'w) agent" where
  "callOpenAI env latestFrame previousScreenB64 currentScreenB64 s =
     (let s1 = s\<lparr>console := console s @ [LogAllowed (allowed_names latestFrame)]\<rparr>;
          createPayload = build_request latestFrame currentScreenB64 s;
          (res, w) = responses_create env (world s) createPayload
      in case res of
           Inl e \<Rightarrow> (Inl e, s1\<lparr>world := w\<rparr>)
         | Inr resp \<Rightarrow>
             read_response latestFrame (user_message_of latestFrame currentScreenB64) resp
               (s1\<lparr>world := w\<rparr>))"

subsection \<open>The loop\<close>

text \<open>\<^verbatim>\<open>this.frames[this.frames.length - 1]\<close>, \<^verbatim>\<open>undefined\<close> on an empty array.\<close>

definition latest_frame :: "('img, 'w) agent \<Rightarrow> frame option" where
  "latest_frame s = (if frames s = [] then None else Some (last (frames s)))"

definition current_grid :: "frame option \<Rightarrow> grid" where
  "current_grid latest =
     (case latest of
        None \<Rightarrow> []
      | Some f \<Rightarrow> (case f_frame f of
                    None \<Rightarrow> []
                  | Some gs \<Rightarrow> (if gs \<noteq> [] then last gs else [])))"

text \<open>The object of which the tool output of a turn is the \<^verbatim>\<open>JSON.stringify\<close>.\<close>

definition tool_output_of :: "'img decision \<Rightarrow> frame \<Rightarrow> tool_output" where
  "tool_output_of d next =
     \<lparr>to_call_id = (case d_functionCallId d of None \<Rightarrow> ''call_0'' | Some c \<Rightarrow> c),
      to_action = d_actionName d,
      to_xy = d_actionData d,
      to_score = (case f_score next of None \<Rightarrow> 0 | Some n \<Rightarrow> n),
      to_state = (case f_state next of None \<Rightarrow> [] | Some st \<Rightarrow> st),
      to_full_reset = (case f_full_reset next of None \<Rightarrow> False | Some b \<Rightarrow> b)\<rparr>"

text \<open>\<^verbatim>\<open>[userMessage, ...(responseOutputItems || []), toolOutput]\<close>\<close>

definition turn_record :: "'img decision \<Rightarrow> frame \<Rightarrow> 'img message list" where
  "turn_record d next =
     UserMessage (d_userMessage d)
       # map OutputItem (case d_responseOutputItems d of None \<Rightarrow> [] | Some its \<Rightarrow> its)
       @ [ToolOutput (tool_output_of d next)]"

text \<open>
  \<^verbatim>\<open>this.screenHistory.push(currentB64)\<close>, the \<^verbatim>\<open>shift\<close> beyond ten screens, and
  \<^verbatim>\<open>this.history.push(historyEntry)\<close>: what the loop keeps before it submits.
\<close>

definition before_submit ::
  "'img decision \<Rightarrow> 'img \<Rightarrow> ('img, 'w) agent \<Rightarrow> ('img, 'w) agent" where
  "before_submit d currentB64 s =
     s\<lparr>screenHistory := (if length (screenHistory s @ [currentB64]) > 10
                          then tl (screenHistory s @ [currentB64])
                          else screenHistory s @ [currentB64]),
       history := history s @ [d_historyEntry d]\<rparr>"

text \<open>
  The second half of an iteration: the action is submitted, and only after the response
  are the frame, the counter and the turn recorded; a full reset clears the history.
\<close>

definition submit_and_record ::
  "('img, 'w) env \<Rightarrow> 'img decision \<Rightarrow> 'img \<Rightarrow> ('img, 'w) agent
     \<Rightarrow> error option \<times> ('img, 'w) agent" where
  "submit_and_record env d currentB64 s =
     (case doAction env (d_actionName d) (Some (d_meta d)) (d_actionData d)
             (before_submit d currentB64 s) of
        (Inl e, s2) \<Rightarrow> (Some e, s2)
      | (Inr next, s2) \<Rightarrow>
          (let s3 = s2\<lparr>frames := frames s2 @ [next],
                       actionCounter := actionCounter s2 + 1,
                       console := console s2
                         @ [LogAction (d_actionName d) (f_score next) (f_state next)]\<rparr>;
               s4 = s3\<lparr>turns := push_turn MESSAGE_LIMIT (turns s3) (turn_record d next)\<rparr>
           in (None, if f_full_reset next = Some True then clearHistory s4 else s4)))"

text \<open>One iteration of the \<^verbatim>\<open>while\<close> loop after the test for \<^verbatim>\<open>WIN\<close>.\<close>

definition turn_step ::
  "('img, 'w) env \<Rightarrow> ('img, 'w) agent \<Rightarrow> error option \<times> ('img, 'w) agent" where
  "turn_step env s =
     (let latest = latest_frame s;
          currentB64 = gridToPngBase64 env (current_grid latest);
          previousB64 = (if screenHistory s \<noteq> [] then Some (last (screenHistory s))
                         else None)
      in case callOpenAI env latest previousB64 currentB64 s of
           (Inl e, s1) \<Rightarrow> (Some e, s1)
         | (Inr d, s1) \<Rightarrow> submit_and_record env d currentB64 s1)"

text \<open>\<^verbatim>\<open>latest?.state === 'WIN'\<close>\<close>

definition latest_is_win :: "('img, 'w) agent \<Rightarrow> bool" where
  "latest_is_win s =
     (case latest_frame s of None \<Rightarrow> False | Some f \<Rightarrow> f_state f = Some ''WIN'')"

text \<open>
  The \<^verbatim>\<open>while\<close> loop. The result is the error that left the loop, if any, and the final
  state.
\<close>

function main_loop ::
  "('img, 'w) env \<Rightarrow> ('img, 'w) agent \<Rightarrow> error option \<times> ('img, 'w) agent" where
  "main_loop env s =
     (if actionCounter s < MAX_ACTIONS
      then (if latest_is_win s
            then (None, s\<lparr>console := console s @ [LogWin (actionCounter s)]\<rparr>)
            else (case turn_step env s of
                    (Some e, s') \<Rightarrow> (Some e, s')
                  | (None, s') \<Rightarrow> main_loop env s'))
      else (None, s))"
  by pat_completeness auto

definition initial_meta :: meta where
  "initial_meta =
     \<lparr>m_hypothesis = None, m_aggregated_findings = None,
      m_response_preview = JStr ''Initial reset'', m_action_chosen = ''RESET'',
      m_game_context = \<lparr>gc_score = 0, gc_state = ''NOT_PLAYED'',
                        gc_action_counter = 0, gc_frame_count = 0\<rparr>\<rparr>"

text \<open>\<^verbatim>\<open>loop\<close>: the first action is \<^verbatim>\<open>RESET\<close>, then the \<^verbatim>\<open>while\<close> loop runs.\<close>

definition loop ::
  "('img, 'w) env \<Rightarrow> ('img, 'w) agent \<Rightarrow> error option \<times> ('img, 'w) agent" where
  "loop env s =
     (case doAction env ''RESET'' (Some initial_meta) None s of
        (Inl e, s1) \<Rightarrow> (Some e, s1)
      | (Inr firstFrame, s1) \<Rightarrow>
          main_loop env
            (s1\<lparr>frames := frames s1 @ [firstFrame],
                console := console s1
                  @ [LogReset (f_score firstFrame) (f_state firstFrame)]\<rparr>))"

text \<open>
  Every call of \<^verbatim>\<open>callOpenAI\<close> prints one line with the allowed actions before it sends
  its request, and nothing else prints such a line: the number of these lines on the
  console is the number of decision calls issued.
\<close>

fun is_decision_line :: "console_line \<Rightarrow> bool" where
  "is_decision_line (LogAllowed names) = True"
| "is_decision_line _ = False"

definition decision_calls :: "console_line list \<Rightarrow> nat" where
  "decision_calls c = length (filter is_decision_line c)"

section \<open>Example inputs\<close>

text \<open>
  A function call that chooses \<^verbatim>\<open>ACTION6\<close> with \<^verbatim>\<open>x = 70\<close> and \<^verbatim>\<open>y = -1\<close>.
\<close>

definition ex_item :: item where
  "ex_item =
     \<lparr>item_type = ''function_call'',
      arguments = Parses (JObj [(''action'', JStr ''ACTION6''),
                                (''x'', JNum (Num 70)), (''y'', JNum (Num (- 1)))]),
      call_id = Some ''c1''\<rparr>"

text \<open>
  A response with a reasoning item and a function call that chooses \<^verbatim>\<open>ACTION1\<close>.
\<close>

definition ex_response :: response where
  "ex_response =
     \<lparr>resp_output =
        Some [\<lparr>item_type = ''reasoning'', arguments = NoArguments, call_id = None\<rparr>,
              \<lparr>item_type = ''function_call'',
               arguments = Parses (JObj [(''reason'', JStr ''try moving up''),
                                         (''action'', JStr ''ACTION1'')]),
               call_id = Some ''c1''\<rparr>]\<rparr>"

definition ex_frame :: "bool \<Rightarrow> bool \<Rightarrow> frame" where
  "ex_frame full_reset win =
     \<lparr>f_frame = None, f_score = Some 0,
      f_state = Some (if win then ''WIN'' else ''NOT_FINISHED''),
      f_full_reset = Some full_reset, f_guid = Some ''g1'', f_available_actions = None\<rparr>"

text \<open>
  A scripted outside world. Its state is the number of requests the backend has
  answered so far and, for every request to the model so far, the number of messages of
  the flattened window in that request (the input without the new user message). The
  model always answers \<open>resp\<close>. The backend answers request number \<open>reset_at\<close> with a
  frame that has \<^verbatim>\<open>full_reset\<close> set, and request number \<open>win_at\<close> with a frame in state
  \<^verbatim>\<open>WIN\<close>; request number 0 is the initial \<^verbatim>\<open>RESET\<close> of \<open>loop\<close>.
\<close>

definition scripted_env :: "response \<Rightarrow> nat \<Rightarrow> nat \<Rightarrow> (unit, nat \<times> nat list) env" where
  "scripted_env resp reset_at win_at =
     \<lparr>gridToPngBase64 = (\<lambda>g. ()),
      responses_create =
        (\<lambda>w p. (Inr resp, (fst w, snd w @ [length (cp_input p) - 1]))),
      arc_post =
        (\<lambda>w url p. (Inr (ex_frame (fst w = reset_at) (fst w = win_at)),
                      (Suc (fst w), snd w)))\<rparr>"

definition ex_env :: "nat \<Rightarrow> nat \<Rightarrow> (unit, nat \<times> nat list) env" where
  "ex_env reset_at win_at = scripted_env ex_response reset_at win_at"

text \<open>
  A response without any function call, and a response whose function call chooses
  \<^verbatim>\<open>ACTION6\<close> with \<^verbatim>\<open>x\<close> null and no \<^verbatim>\<open>y\<close>.
\<close>

definition ex_no_call :: response where
  "ex_no_call =
     \<lparr>resp_output =
        Some [\<lparr>item_type = ''reasoning'', arguments = NoArguments, call_id = None\<rparr>]\<rparr>"

definition ex_action6_null :: response where
  "ex_action6_null =
     \<lparr>resp_output =
        Some [\<lparr>item_type = ''function_call'',
               arguments = Parses (JObj [(''reason'', JStr ''click the door''),
                                         (''action'', JStr ''ACTION6''),
                                         (''x'', JNull)]),
               call_id = Some ''c2''\<rparr>]\<rparr>"

text \<open>
  A function call that chooses \<^verbatim>\<open>ACTION6\<close> with \<^verbatim>\<open>x = 5\<close> and \<^verbatim>\<open>y = 7\<close>, and a response
  whose function call has arguments that do not parse.
\<close>

definition ex_item_in_range :: item where
  "ex_item_in_range =
     \<lparr>item_type = ''function_call'',
      arguments = Parses (JObj [(''action'', JStr ''ACTION6''),
                                (''x'', JNum (Num 5)), (''y'', JNum (Num 7))]),
      call_id = Some ''c4''\<rparr>"

definition ex_unparsable :: response where
  "ex_unparsable =
     \<lparr>resp_output =
        Some [\<lparr>item_type = ''function_call'', arguments = Unparsable,
               call_id = Some ''c5''\<rparr>]\<rparr>"

text \<open>A response whose function call has the number 5 as its \<^verbatim>\<open>reason\<close>.\<close>

definition ex_bad_reason :: response where
  "ex_bad_reason =
     \<lparr>resp_output =
        Some [\<lparr>item_type = ''function_call'',
               arguments = Parses (JObj [(''reason'', JNum (Num 5)),
                                         (''action'', JStr ''ACTION1'')]),
               call_id = Some ''c3''\<rparr>]\<rparr>"




definition ex_agent :: "(unit, nat \<times> nat list) agent" where
  "ex_agent = new_agent ''game'' (Some ''card'') (0, [])"

text \<open>
  The agent of the scripted world after the initial \<^verbatim>\<open>RESET\<close> of \<open>loop\<close>, and a world in
  which the model answers \<open>ex_response\<close> and every request to the backend throws.
\<close>

definition ex_started :: "(unit, nat \<times> nat list) agent" where
  "ex_started =
     \<lparr>gameId = ''game'', cardId = Some ''card'', guid = ''g1'',
      frames = [ex_frame False False], history = [], screenHistory = [],
      actionCounter = 0, turns = [],
      console = [LogReset (Some 0) (Some ''NOT_FINISHED'')], world = (Suc 0, [])\<rparr>"

definition failing_env :: "(unit, nat \<times> nat list) env" where
  "failing_env =
     \<lparr>gridToPngBase64 = (\<lambda>g. ()),
      responses_create =
        (\<lambda>w p. (Inr ex_response, (fst w, snd w @ [length (cp_input p) - 1]))),
      arc_post = (\<lambda>w url p. (Inl (Thrown ''timeout''), w))\<rparr>"

section \<open>Properties\<close>

subsection \<open>Termination of the loop\<close>

lemma doAction_actionCounter:
  "doAction env a m d s = (r, s') \<Longrightarrow> actionCounter s' = actionCounter s"
  by (auto simp: doAction_def Let_def split: prod.splits sum.splits)

lemma read_response_actionCounter:
  "read_response lf um resp s = (r, s') \<Longrightarrow> actionCounter s' = actionCounter s"
  by (auto simp: read_response_def Let_def split: sum.splits)

lemma callOpenAI_actionCounter:
  "callOpenAI env lf p c s = (r, s') \<Longrightarrow> actionCounter s' = actionCounter s"
  by (auto simp: callOpenAI_def Let_def split: prod.splits sum.splits
           dest: read_response_actionCounter)

lemma submit_and_record_actionCounter:
  "submit_and_record env d c s = (None, s') \<Longrightarrow> actionCounter s' = Suc (actionCounter s)"
  by (auto simp: submit_and_record_def before_submit_def Let_def clearHistory_def
           split: prod.splits sum.splits if_splits dest: doAction_actionCounter)

lemma turn_step_actionCounter:
  "turn_step env s = (None, s') \<Longrightarrow> actionCounter s' = Suc (actionCounter s)"
proof -
  assume t: "turn_step env s = (None, s')"
  let ?cur = "gridToPngBase64 env (current_grid (latest_frame s))"
  let ?prev = "if screenHistory s \<noteq> [] then Some (last (screenHistory s)) else None"
  obtain r s1 where c: "callOpenAI env (latest_frame s) ?prev ?cur s = (r, s1)"
    by (cases "callOpenAI env (latest_frame s) ?prev ?cur s") blast
  from t c obtain d where "r = Inr d" and "submit_and_record env d ?cur s1 = (None, s')"
    by (cases r) (auto simp: turn_step_def Let_def)
  then have "actionCounter s' = Suc (actionCounter s1)"
    by (simp add: submit_and_record_actionCounter)
  with callOpenAI_actionCounter [OF c] show ?thesis
    by simp
qed

termination main_loop
proof (relation "measure (\<lambda>(env, s). MAX_ACTIONS - actionCounter s)")
  show "wf (measure (\<lambda>(env, s). MAX_ACTIONS - actionCounter s))"
    by simp
next
  fix env :: "('img, 'w) env" and s x :: "('img, 'w) agent" and e
  assume "actionCounter s < MAX_ACTIONS" and "(e, x) = turn_step env s" and "e = None"
  then have "actionCounter x = Suc (actionCounter s)"
    using turn_step_actionCounter [of env s x] by simp
  with \<open>actionCounter s < MAX_ACTIONS\<close>
  show "((env, x), (env, s)) \<in> measure (\<lambda>(env, s). MAX_ACTIONS - actionCounter s)"
    by simp
qed

subsection \<open>The tool schema\<close>

text \<open>
  Claim C4. \<open>buildReasoningTools\<close> returns one tool. When \<^verbatim>\<open>ACTION6\<close> is not among the
  allowed names, its parameters have no property \<^verbatim>\<open>x\<close> or \<^verbatim>\<open>y\<close> and neither name is
  required. When \<^verbatim>\<open>ACTION6\<close> is among them, \<^verbatim>\<open>x\<close> and \<^verbatim>\<open>y\<close> are properties of type
  integer-or-null with minimum 0 and maximum 63, both are required, and the description
  of each says that it is required with \<^verbatim>\<open>ACTION6\<close> and null otherwise. That last rule
  is carried by the description text: the schema has no keyword that ties the
  coordinates to the chosen action.
\<close>

theorem buildReasoningTools_coordinates:
  "length (buildReasoningTools S) = 1 \<and>
   (let ps = tool_parameters (hd (buildReasoningTools S)) in
      (''ACTION6'' \<notin> set S \<longrightarrow>
         map_of (par_properties ps) ''x'' = None \<and>
         map_of (par_properties ps) ''y'' = None \<and>
         ''x'' \<notin> set (par_required ps) \<and> ''y'' \<notin> set (par_required ps)) \<and>
      (''ACTION6'' \<in> set S \<longrightarrow>
         map_of (par_properties ps) ''x'' =
           Some \<lparr>ps_type = [TInteger, TNull],
                 ps_description =
                   ''Required when action==ACTION6. X coordinate in [0,63]; otherwise null.'',
                 ps_minLength = None, ps_maxLength = None, ps_enum = None,
                 ps_minimum = Some 0, ps_maximum = Some 63\<rparr> \<and>
         map_of (par_properties ps) ''y'' =
           Some \<lparr>ps_type = [TInteger, TNull],
                 ps_description =
                   ''Required when action==ACTION6. Y coordinate in [0,63]; otherwise null.'',
                 ps_minLength = None, ps_maxLength = None, ps_enum = None,
                 ps_minimum = Some 0, ps_maximum = Some 63\<rparr> \<and>
         ''x'' \<in> set (par_required ps) \<and> ''y'' \<in> set (par_required ps)))"
  by (simp add: buildReasoningTools_def Let_def base_properties_def coord_prop_def
        x_description_def y_description_def)

theorem buildReasoningTools_coordinates_witness:
  "''ACTION6'' \<notin> set [''ACTION1'', ''ACTION2'', ''RESET''] \<and>
   map_of (par_properties (tool_parameters
     (hd (buildReasoningTools [''ACTION1'', ''ACTION2'', ''RESET''])))) ''x'' = None \<and>
   ''ACTION6'' \<in> set [''ACTION6'', ''RESET''] \<and>
   ''y'' \<in> set (par_required (tool_parameters
     (hd (buildReasoningTools [''ACTION6'', ''RESET'']))))"
  using buildReasoningTools_coordinates [of "[''ACTION1'', ''ACTION2'', ''RESET'']"]
        buildReasoningTools_coordinates [of "[''ACTION6'', ''RESET'']"]
  by (simp add: Let_def)

subsection \<open>Coordinates\<close>

lemma clamp63_range: "0 \<le> clamp63 t \<and> clamp63 t \<le> 63"
  by (cases t) auto

lemma clamp63_trunc_of_int:
  "0 \<le> i \<Longrightarrow> i \<le> 63 \<Longrightarrow> clamp63 (js_trunc (Num (of_int i))) = i"
  by simp

lemma pick_item_action6:
  assumes "get_prop (parse_args (arguments it)) ''action'' = Some (JStr ''ACTION6'')"
    and "get_prop (parse_args (arguments it)) ''x'' = Some (JNum xv)"
    and "get_prop (parse_args (arguments it)) ''y'' = Some (JNum yv)"
  shows "pick_item gid it =
     \<lparr>pk_actionName = ''ACTION6'', pk_args = parse_args (arguments it),
      pk_functionCallId = or_null (call_id it),
      pk_actionData = Some (clamp63 (js_trunc xv), clamp63 (js_trunc yv)),
      pk_warnings = []\<rparr>"
  using assms by (simp add: pick_item_def action6_data_def number_or_null_def Let_def)

text \<open>
  Claim C6. When the function call chooses \<^verbatim>\<open>ACTION6\<close> and supplies two numbers, the
  pair kept for submission consists of two integers between 0 and 63; a supplied
  coordinate that is already an integer between 0 and 63 is kept as it is; and the
  payload built by \<^verbatim>\<open>doAction\<close> carries that pair as \<^verbatim>\<open>x\<close> and \<^verbatim>\<open>y\<close>. The supplied
  numbers are any numbers \<^verbatim>\<open>JSON.parse\<close> can return; one that is not an integer is first
  truncated towards zero. The witness is the scenario \<^verbatim>\<open>x = 70\<close>, \<^verbatim>\<open>y = -1\<close>, which is
  stored and sent as \<^verbatim>\<open>x = 63\<close>, \<^verbatim>\<open>y = 0\<close>.
\<close>

theorem coordinates_clamped:
  assumes "get_prop (parse_args (arguments it)) ''action'' = Some (JStr ''ACTION6'')"
    and "get_prop (parse_args (arguments it)) ''x'' = Some (JNum xv)"
    and "get_prop (parse_args (arguments it)) ''y'' = Some (JNum yv)"
  shows "\<exists>cx cy. pk_actionData (pick_item gid it) = Some (cx, cy) \<and>
           0 \<le> cx \<and> cx \<le> 63 \<and> 0 \<le> cy \<and> cy \<le> 63 \<and>
           (\<forall>i. xv = Num (of_int i) \<and> 0 \<le> i \<and> i \<le> 63 \<longrightarrow> cx = i) \<and>
           (\<forall>j. yv = Num (of_int j) \<and> 0 \<le> j \<and> j \<le> 63 \<longrightarrow> cy = j) \<and>
           p_x (request_payload (pk_actionName (pick_item gid it)) m
                  (pk_actionData (pick_item gid it)) s) = Some cx \<and>
           p_y (request_payload (pk_actionName (pick_item gid it)) m
                  (pk_actionData (pick_item gid it)) s) = Some cy"
proof -
  let ?cx = "clamp63 (js_trunc xv)" and ?cy = "clamp63 (js_trunc yv)"
  have pk: "pk_actionData (pick_item gid it) = Some (?cx, ?cy)"
    and nm: "pk_actionName (pick_item gid it) = ''ACTION6''"
    using pick_item_action6 [OF assms, of gid] by simp_all
  have "(\<forall>i. xv = Num (of_int i) \<and> 0 \<le> i \<and> i \<le> 63 \<longrightarrow> ?cx = i)"
    and "(\<forall>j. yv = Num (of_int j) \<and> 0 \<le> j \<and> j \<le> 63 \<longrightarrow> ?cy = j)"
    using clamp63_trunc_of_int by blast+
  moreover have "p_x (request_payload ''ACTION6'' m (Some (?cx, ?cy)) s) = Some ?cx"
    and "p_y (request_payload ''ACTION6'' m (Some (?cx, ?cy)) s) = Some ?cy"
    by (simp_all add: request_payload_def)
  ultimately show ?thesis
    using pk nm clamp63_range [of "js_trunc xv"] clamp63_range [of "js_trunc yv"]
    by auto
qed

theorem coordinates_clamped_witness:
  "get_prop (parse_args (arguments ex_item)) ''action'' = Some (JStr ''ACTION6'') \<and>
   get_prop (parse_args (arguments ex_item)) ''x'' = Some (JNum (Num 70)) \<and>
   get_prop (parse_args (arguments ex_item)) ''y'' = Some (JNum (Num (- 1))) \<and>
   pk_actionData (pick_item ''g'' ex_item) = Some (63, 0) \<and>
   p_x (request_payload (pk_actionName (pick_item ''g'' ex_item)) None
          (pk_actionData (pick_item ''g'' ex_item))
          (new_agent ''g'' None () :: (unit, unit) agent)) = Some 63 \<and>
   p_y (request_payload (pk_actionName (pick_item ''g'' ex_item)) None
          (pk_actionData (pick_item ''g'' ex_item))
          (new_agent ''g'' None () :: (unit, unit) agent)) = Some 0 \<and>
   get_prop (parse_args (arguments ex_item_in_range)) ''x'' = Some (JNum (Num (of_int 5))) \<and>
   get_prop (parse_args (arguments ex_item_in_range)) ''y'' = Some (JNum (Num (of_int 7))) \<and>
   pk_actionData (pick_item ''g'' ex_item_in_range) = Some (5, 7)"
proof -
  have a: "get_prop (parse_args (arguments ex_item)) ''action'' = Some (JStr ''ACTION6'')"
    and x: "get_prop (parse_args (arguments ex_item)) ''x'' = Some (JNum (Num 70))"
    and y: "get_prop (parse_args (arguments ex_item)) ''y'' = Some (JNum (Num (- 1)))"
    by (simp_all add: ex_item_def parse_args_def)
  have v: "pk_actionData (pick_item ''g'' ex_item) = Some (63, 0)"
    by (simp add: pick_item_def ex_item_def parse_args_def action6_data_def Let_def
          number_or_null_def)
  have a': "get_prop (parse_args (arguments ex_item_in_range)) ''action''
              = Some (JStr ''ACTION6'')"
    and x': "get_prop (parse_args (arguments ex_item_in_range)) ''x''
              = Some (JNum (Num (of_int 5)))"
    and y': "get_prop (parse_args (arguments ex_item_in_range)) ''y''
              = Some (JNum (Num (of_int 7)))"
    by (simp_all add: ex_item_in_range_def parse_args_def)
  from coordinates_clamped [OF a' x' y', of "''g''" None "new_agent ''g'' None ()"]
  obtain cx cy where "pk_actionData (pick_item ''g'' ex_item_in_range) = Some (cx, cy)"
    and "\<forall>i. Num (of_int 5) = Num (of_int i) \<and> 0 \<le> i \<and> i \<le> 63 \<longrightarrow> cx = i"
    and "\<forall>j. Num (of_int 7) = Num (of_int j) \<and> 0 \<le> j \<and> j \<le> 63 \<longrightarrow> cy = j"
    by blast
  then have v': "pk_actionData (pick_item ''g'' ex_item_in_range) = Some (5, 7)"
    by simp
  from coordinates_clamped [OF a x y, of "''g''" None "new_agent ''g'' None ()"] a x y v x' y' v'
  show ?thesis by auto
qed

subsection \<open>The session token\<close>

text \<open>
  Claim C10. The payload of \<^verbatim>\<open>doAction\<close> has a \<^verbatim>\<open>guid\<close> exactly when the stored token is
  not empty, and then it is the stored token; it has a \<^verbatim>\<open>card_id\<close> exactly when the action
  is \<^verbatim>\<open>RESET\<close> and the card id is set (neither missing nor empty). The request goes to
  \<^verbatim>\<open>/api/cmd/<action>\<close> with that payload; afterwards the stored token is the one of the
  response when the response has a non-empty one, and is unchanged otherwise, also when
  the request throws.
\<close>

theorem doAction_session_token:
  "p_guid (request_payload a m d s) = (if guid s \<noteq> [] then Some (guid s) else None) \<and>
   p_card_id (request_payload a m d s) =
     (if a = ''RESET'' \<and> cardId s \<noteq> None \<and> cardId s \<noteq> Some [] then cardId s else None) \<and>
   (\<exists>res w. arc_post env (world s) (''/api/cmd/'' @ a) (request_payload a m d s) = (res, w) \<and>
      fst (doAction env a m d s) = res \<and>
      guid (snd (doAction env a m d s)) =
        (case res of
           Inl e \<Rightarrow> guid s
         | Inr data \<Rightarrow> (case f_guid data of
                         None \<Rightarrow> guid s
                       | Some g \<Rightarrow> (if g \<noteq> [] then g else guid s))))"
  by (cases "arc_post env (world s) (''/api/cmd/'' @ a) (request_payload a m d s)")
     (auto simp: doAction_def request_payload_def or_null_def Let_def
           split: sum.splits option.splits)

theorem doAction_session_token_witness:
  "p_guid (request_payload ''RESET'' (Some initial_meta) None ex_agent) = None \<and>
   p_card_id (request_payload ''RESET'' (Some initial_meta) None ex_agent) = Some ''card'' \<and>
   guid (snd (doAction (ex_env (Suc 0) 2) ''RESET'' (Some initial_meta) None ex_agent)) = ''g1'' \<and>
   p_guid (request_payload ''ACTION1'' None None ex_started) = Some ''g1'' \<and>
   p_card_id (request_payload ''ACTION1'' None None ex_started) = None \<and>
   guid (snd (doAction failing_env ''ACTION1'' None None ex_started)) = ''g1''"
proof -
  have a: "arc_post (ex_env (Suc 0) 2) (world ex_agent) (''/api/cmd/'' @ ''RESET'')
             (request_payload ''RESET'' (Some initial_meta) None ex_agent)
           = (Inr (ex_frame False False), (Suc 0, []))"
    by (simp add: ex_env_def scripted_env_def ex_agent_def new_agent_def)
  have b: "arc_post failing_env (world ex_started) (''/api/cmd/'' @ ''ACTION1'')
             (request_payload ''ACTION1'' None None ex_started)
           = (Inl (Thrown ''timeout''), (Suc 0, []))"
    by (simp add: failing_env_def ex_started_def)
  from doAction_session_token
         [of "''RESET''" "Some initial_meta" None ex_agent "ex_env (Suc 0) 2"]
       doAction_session_token [of "''ACTION1''" None None ex_started failing_env]
  show ?thesis
    unfolding a b
    by (simp add: ex_agent_def ex_started_def new_agent_def ex_frame_def)
qed

subsection \<open>The window of turns\<close>

lemma js_slice_neg: "0 < k \<Longrightarrow> js_slice (- int k) xs = drop (length xs - k) xs"
  by (auto simp: js_slice_def Let_def max_def intro: arg_cong [where f = "\<lambda>n. drop n xs"])

lemma push_turn_drop:
  "0 < k \<Longrightarrow> push_turn k ts t = drop (Suc (length ts) - k) (ts @ [t])"
  by (simp add: push_turn_def enforce_limit_def js_slice_neg)

lemma foldl_push_turn:
  "0 < k \<Longrightarrow> foldl (push_turn k) [] rs = drop (length rs - k) rs"
proof (induction rs rule: rev_induct)
  case Nil
  then show ?case by simp
next
  case (snoc r rs)
  show ?case
  proof (cases "length rs < k")
    case True
    with snoc show ?thesis by (simp add: push_turn_drop)
  next
    case False
    then have "Suc (length rs) - k = Suc (length rs - k)"
      and "Suc (length (drop (length rs - k) rs)) - k = 1"
      by simp_all
    with snoc False show ?thesis by (simp add: push_turn_drop)
  qed
qed

lemma flatten_last_drop: "flatten_last k ts = concat (drop (length ts - k) ts)"
  by (auto simp: flatten_last_def js_slice_def Let_def max_def min_def
        intro!: arg_cong [where f = concat] arg_cong [where f = "\<lambda>n. drop n ts"])

lemma foldl_push_turn_0: "foldl (push_turn 0) [] rs = rs"
  by (induction rs rule: rev_induct)
     (simp_all add: push_turn_def enforce_limit_def js_slice_def)

text \<open>
  Claim C2. Start from the empty window and push the turn records \<open>rs\<close> one after the
  other, enforcing the cap \<open>k\<close> after each push as the loop does. Once at least \<open>k\<close>
  records have been pushed, \<^verbatim>\<open>flattenTurns\<close> returns the concatenation of the last \<open>k\<close>
  records of \<open>rs\<close> in the order in which they were pushed, and for a positive cap the
  window itself is the list of these \<open>k\<close> records in that order. The cap of the source
  is \<open>MESSAGE_LIMIT = 5\<close>: the loop pushes the record of every completed turn with
  \<open>push_turn MESSAGE_LIMIT\<close>, and \<open>flattenTurns\<close> is \<open>flatten_last MESSAGE_LIMIT\<close> on
  \<^verbatim>\<open>turns\<close>. (With a cap of 0, which the source does not have, \<^verbatim>\<open>slice(-0)\<close> would keep
  every record in \<^verbatim>\<open>turns\<close>; the flattened window would still be empty.)
\<close>

theorem window_keeps_last_turns:
  assumes "k \<le> length rs"
  shows "flatten_last k (foldl (push_turn k) [] rs) = concat (drop (length rs - k) rs) \<and>
         (0 < k \<longrightarrow> foldl (push_turn k) [] rs = drop (length rs - k) rs \<and>
                    length (foldl (push_turn k) [] rs) = k)"
proof (cases "k = 0")
  case True
  then show ?thesis by (simp add: foldl_push_turn_0 flatten_last_drop)
next
  case False
  with assms show ?thesis by (simp add: foldl_push_turn flatten_last_drop)
qed

theorem window_keeps_last_turns_witness:
  "MESSAGE_LIMIT \<le> length [[1], [2], [3], [4], [5], [6], [7 :: nat]] \<and>
   0 < MESSAGE_LIMIT \<and>
   foldl (push_turn MESSAGE_LIMIT) [] [[1], [2], [3], [4], [5], [6], [7 :: nat]]
     = [[3], [4], [5], [6], [7]] \<and>
   flatten_last MESSAGE_LIMIT
     (foldl (push_turn MESSAGE_LIMIT) [] [[1], [2], [3], [4], [5], [6], [7 :: nat]])
     = [3, 4, 5, 6, 7]"
  using window_keeps_last_turns [of MESSAGE_LIMIT "[[1], [2], [3], [4], [5], [6], [7 :: nat]]"]
  by (simp add: MESSAGE_LIMIT_def flatten_last_drop)

subsection \<open>What a turn changes\<close>

declare main_loop.simps [simp del]

lemma doAction_fields:
  "doAction env a m d s = (r, s') \<Longrightarrow>
     gameId s' = gameId s \<and> cardId s' = cardId s \<and> frames s' = frames s \<and>
     history s' = history s \<and> screenHistory s' = screenHistory s \<and>
     actionCounter s' = actionCounter s \<and> turns s' = turns s \<and> console s' = console s"
  by (cases "arc_post env (world s) (''/api/cmd/'' @ a) (request_payload a m d s)")
     (auto simp: doAction_def Let_def split: sum.splits)

lemma read_response_frame:
  "read_response lf um resp s = (r, s') \<Longrightarrow>
     s' = s\<lparr>console := console s @ LogTokens
            # map Warn (pk_warnings (pick_function_call (gameId s)
                 (case resp_output resp of None \<Rightarrow> [] | Some its \<Rightarrow> its)))\<rparr>"
  by (auto simp: read_response_def Let_def split: sum.splits)

lemma decision_calls_append [simp]:
  "decision_calls (xs @ ys) = decision_calls xs + decision_calls ys"
  by (simp add: decision_calls_def)

lemma decision_calls_Warn [simp]: "decision_calls (map Warn ws) = 0"
  by (induction ws) (simp_all add: decision_calls_def)

lemma decision_calls_simps [simp]:
  "decision_calls [] = 0"
  "decision_calls (LogAllowed ns # c) = Suc (decision_calls c)"
  "decision_calls (LogTokens # c) = decision_calls c"
  "decision_calls (LogAction a sc st # c) = decision_calls c"
  "decision_calls (LogReset sc st # c) = decision_calls c"
  "decision_calls (LogWin n # c) = decision_calls c"
  "decision_calls (Warn w # c) = decision_calls c"
  by (simp_all add: decision_calls_def)

lemma callOpenAI_frame:
  assumes "callOpenAI env lf p c s = (r, s')"
  shows "s' = s\<lparr>console := console s', world := world s'\<rparr> \<and>
         decision_calls (console s') = Suc (decision_calls (console s))"
proof -
  obtain res w where cr: "responses_create env (world s) (build_request lf c s) = (res, w)"
    by (cases "responses_create env (world s) (build_request lf c s)") blast
  show ?thesis
  proof (cases res)
    case (Inl e)
    with assms cr
    have "s' = s\<lparr>console := console s @ [LogAllowed (allowed_names lf)], world := w\<rparr>"
      by (simp add: callOpenAI_def Let_def)
    then show ?thesis by simp
  next
    case (Inr resp)
    with assms cr have "read_response lf (user_message_of lf c) resp
        (s\<lparr>console := console s @ [LogAllowed (allowed_names lf)], world := w\<rparr>) = (r, s')"
      by (simp add: callOpenAI_def Let_def)
    from read_response_frame [OF this] show ?thesis
      by simp
  qed
qed

lemma submit_and_record_error:
  assumes "submit_and_record env d c s = (Some e, s')"
  shows "doAction env (d_actionName d) (Some (d_meta d)) (d_actionData d) (before_submit d c s)
           = (Inl e, s') \<and>
         actionCounter s' = actionCounter s \<and> turns s' = turns s \<and> frames s' = frames s \<and>
         console s' = console s"
proof -
  let ?s1 = "before_submit d c s"
  obtain r s2 where
    da: "doAction env (d_actionName d) (Some (d_meta d)) (d_actionData d) ?s1 = (r, s2)"
    by (cases "doAction env (d_actionName d) (Some (d_meta d)) (d_actionData d) ?s1") blast
  from assms da have "s' = s2 \<and> r = Inl e"
    by (cases r) (auto simp: submit_and_record_def before_submit_def Let_def)
  with doAction_fields [OF da] da show ?thesis
    by (simp add: before_submit_def)
qed

lemma submit_and_record_ok:
  assumes "submit_and_record env d c s = (None, s')"
  shows "\<exists>next s2.
           doAction env (d_actionName d) (Some (d_meta d)) (d_actionData d) (before_submit d c s)
             = (Inr next, s2) \<and>
           frames s' = frames s @ [next] \<and>
           actionCounter s' = Suc (actionCounter s) \<and>
           turns s' = push_turn MESSAGE_LIMIT (turns s) (turn_record d next) \<and>
           console s' = console s @ [LogAction (d_actionName d) (f_score next) (f_state next)] \<and>
           gameId s' = gameId s \<and> cardId s' = cardId s \<and>
           guid s' = guid s2 \<and> world s' = world s2 \<and>
           history s' = (if f_full_reset next = Some True then []
                         else history s @ [d_historyEntry d]) \<and>
           screenHistory s' = (if f_full_reset next = Some True then []
                               else screenHistory (before_submit d c s))"
proof -
  let ?s1 = "before_submit d c s"
  obtain r s2 where
    da: "doAction env (d_actionName d) (Some (d_meta d)) (d_actionData d) ?s1 = (r, s2)"
    by (cases "doAction env (d_actionName d) (Some (d_meta d)) (d_actionData d) ?s1") blast
  from assms da obtain nxt where r: "r = Inr nxt"
    by (cases r) (auto simp: submit_and_record_def before_submit_def Let_def)
  let ?s4 = "s2\<lparr>frames := frames s2 @ [nxt], actionCounter := actionCounter s2 + 1,
                 console := console s2
                   @ [LogAction (d_actionName d) (f_score nxt) (f_state nxt)],
                 turns := push_turn MESSAGE_LIMIT (turns s2) (turn_record d nxt)\<rparr>"
  from assms da r
  have s': "s' = (if f_full_reset nxt = Some True then clearHistory ?s4 else ?s4)"
    by (cases "f_full_reset nxt = Some True")
       (simp_all add: submit_and_record_def before_submit_def Let_def)
  from doAction_fields [OF da] have
    "frames s2 = frames s" "actionCounter s2 = actionCounter s" "turns s2 = turns s"
    "console s2 = console s" "gameId s2 = gameId s" "cardId s2 = cardId s"
    "history s2 = history s @ [d_historyEntry d]"
    "screenHistory s2 = screenHistory ?s1"
    by (simp_all add: before_submit_def)
  with s' da r show ?thesis
    by (simp add: clearHistory_def)
qed

lemma submit_and_record_decision_calls:
  "submit_and_record env d c s = (r, s') \<Longrightarrow>
     decision_calls (console s') = decision_calls (console s)"
  using submit_and_record_error [of env d c s _ s'] submit_and_record_ok [of env d c s s']
  by (cases r) auto

lemma turn_step_decision_calls:
  assumes "turn_step env s = (r, s')"
  shows "decision_calls (console s') = Suc (decision_calls (console s))"
proof -
  let ?cur = "gridToPngBase64 env (current_grid (latest_frame s))"
  let ?prev = "if screenHistory s \<noteq> [] then Some (last (screenHistory s)) else None"
  obtain r1 s1 where c: "callOpenAI env (latest_frame s) ?prev ?cur s = (r1, s1)"
    by (cases "callOpenAI env (latest_frame s) ?prev ?cur s") blast
  from callOpenAI_frame [OF c]
  have dc: "decision_calls (console s1) = Suc (decision_calls (console s))" by auto
  show ?thesis
  proof (cases r1)
    case (Inl e)
    with assms c have "s' = s1" by (simp add: turn_step_def Let_def)
    with dc show ?thesis by simp
  next
    case (Inr d)
    with assms c have "submit_and_record env d ?cur s1 = (r, s')"
      by (simp add: turn_step_def Let_def)
    from submit_and_record_decision_calls [OF this] dc show ?thesis by simp
  qed
qed

lemma turn_step_error:
  assumes "turn_step env s = (Some e, s')"
  shows "actionCounter s' = actionCounter s \<and> turns s' = turns s \<and> frames s' = frames s"
proof -
  let ?cur = "gridToPngBase64 env (current_grid (latest_frame s))"
  let ?prev = "if screenHistory s \<noteq> [] then Some (last (screenHistory s)) else None"
  obtain r1 s1 where c: "callOpenAI env (latest_frame s) ?prev ?cur s = (r1, s1)"
    by (cases "callOpenAI env (latest_frame s) ?prev ?cur s") blast
  from callOpenAI_frame [OF c]
  have s1: "s1 = s\<lparr>console := console s1, world := world s1\<rparr>" by simp
  have f: "actionCounter s1 = actionCounter s \<and> turns s1 = turns s \<and> frames s1 = frames s"
    by (subst (1 2 3) s1) simp
  show ?thesis
  proof (cases r1)
    case (Inl e')
    with assms c have "s' = s1" by (simp add: turn_step_def Let_def)
    with f show ?thesis by simp
  next
    case (Inr d)
    with assms c have "submit_and_record env d ?cur s1 = (Some e, s')"
      by (simp add: turn_step_def Let_def)
    from submit_and_record_error [OF this] f show ?thesis by simp
  qed
qed

lemma main_loop_bounds:
  "main_loop env s = (r, s') \<Longrightarrow>
     decision_calls (console s') \<le> decision_calls (console s) + (MAX_ACTIONS - actionCounter s)
     \<and> actionCounter s' \<le> max MAX_ACTIONS (actionCounter s)"
proof (induction env s arbitrary: r s' rule: main_loop.induct)
  case (1 env s)
  show ?case
  proof (cases "actionCounter s < MAX_ACTIONS")
    case False
    with "1.prems" show ?thesis by (simp add: main_loop.simps)
  next
    case lt: True
    show ?thesis
    proof (cases "latest_is_win s")
      case True
      with lt "1.prems" show ?thesis by (auto simp: main_loop.simps)
    next
      case nw: False
      obtain e s1 where t: "turn_step env s = (e, s1)"
        by (cases "turn_step env s") blast
      note dc = turn_step_decision_calls [OF t]
      show ?thesis
      proof (cases e)
        case (Some err)
        with lt nw t "1.prems" have "s' = s1" by (simp add: main_loop.simps)
        moreover from t Some have "actionCounter s1 = actionCounter s"
          by (simp add: turn_step_error)
        ultimately show ?thesis using dc lt by simp
      next
        case None
        with lt nw t "1.prems" have m: "main_loop env s1 = (r, s')"
          by (simp add: main_loop.simps)
        from None t have ac: "actionCounter s1 = Suc (actionCounter s)"
          by (simp add: turn_step_actionCounter)
        from "1.IH" [OF lt nw t [symmetric] None m] dc ac lt
        show ?thesis by (simp add: max_def) arith
      qed
    qed
  qed
qed

lemma push_turn_last: "0 < k \<Longrightarrow> push_turn k ts t \<noteq> [] \<and> last (push_turn k ts t) = t"
  by (simp add: push_turn_drop)

lemma concat_last:
  "xs \<noteq> [] \<Longrightarrow> last xs \<noteq> [] \<Longrightarrow> concat xs \<noteq> [] \<and> last (concat xs) = last (last xs)"
  by (induction xs) auto

lemma flatten_last_last:
  assumes "0 < k" and "ts \<noteq> []" and "last ts \<noteq> []"
  shows "flatten_last k ts \<noteq> [] \<and> last (flatten_last k ts) = last (last ts)"
proof -
  from assms have "length ts - k < length ts" by (cases ts) auto
  then have "drop (length ts - k) ts \<noteq> []" and "last (drop (length ts - k) ts) = last ts"
    by simp_all
  with assms concat_last [of "drop (length ts - k) ts"] show ?thesis
    by (simp add: flatten_last_drop)
qed

lemma turn_record_last:
  "turn_record d nxt \<noteq> [] \<and> last (turn_record d nxt) = ToolOutput (tool_output_of d nxt)"
  by (simp add: turn_record_def)

lemma turn_step_ok:
  assumes "turn_step env s = (None, s')"
  shows "\<exists>d s1 nxt s2.
           callOpenAI env (latest_frame s)
             (if screenHistory s \<noteq> [] then Some (last (screenHistory s)) else None)
             (gridToPngBase64 env (current_grid (latest_frame s))) s = (Inr d, s1) \<and>
           doAction env (d_actionName d) (Some (d_meta d)) (d_actionData d)
             (before_submit d (gridToPngBase64 env (current_grid (latest_frame s))) s1)
             = (Inr nxt, s2) \<and>
           frames s' = frames s @ [nxt] \<and>
           actionCounter s' = Suc (actionCounter s) \<and>
           turns s' = push_turn MESSAGE_LIMIT (turns s) (turn_record d nxt) \<and>
           gameId s' = gameId s \<and> cardId s' = cardId s \<and>
           history s' = (if f_full_reset nxt = Some True then []
                         else history s @ [d_historyEntry d]) \<and>
           screenHistory s' =
             (if f_full_reset nxt = Some True then []
              else screenHistory
                     (before_submit d (gridToPngBase64 env (current_grid (latest_frame s))) s))"
proof -
  let ?cur = "gridToPngBase64 env (current_grid (latest_frame s))"
  let ?prev = "if screenHistory s \<noteq> [] then Some (last (screenHistory s)) else None"
  obtain r1 s1 where c: "callOpenAI env (latest_frame s) ?prev ?cur s = (r1, s1)"
    by (cases "callOpenAI env (latest_frame s) ?prev ?cur s") blast
  from callOpenAI_frame [OF c]
  have s1: "s1 = s\<lparr>console := console s1, world := world s1\<rparr>" by simp
  have f: "actionCounter s1 = actionCounter s" "turns s1 = turns s" "frames s1 = frames s"
    "gameId s1 = gameId s" "cardId s1 = cardId s" "history s1 = history s"
    "screenHistory s1 = screenHistory s"
    by (subst s1, simp)+
  from assms c obtain d where r1: "r1 = Inr d"
    and sr: "submit_and_record env d ?cur s1 = (None, s')"
    by (cases r1) (auto simp: turn_step_def Let_def)
  from submit_and_record_ok [OF sr] f c r1 show ?thesis
    by (auto simp: before_submit_def)
qed

subsection \<open>The budget of the loop\<close>

lemma loop_bounds:
  assumes "loop env s = (r, s')" and "actionCounter s = 0" and "decision_calls (console s) = 0"
  shows "decision_calls (console s') \<le> MAX_ACTIONS \<and> actionCounter s' \<le> MAX_ACTIONS"
proof -
  obtain r1 s1 where da: "doAction env ''RESET'' (Some initial_meta) None s = (r1, s1)"
    by (cases "doAction env ''RESET'' (Some initial_meta) None s") blast
  note f = doAction_fields [OF da]
  show ?thesis
  proof (cases r1)
    case (Inl e)
    with assms da have "s' = s1" by (simp add: loop_def)
    with f assms show ?thesis by simp
  next
    case (Inr firstFrame)
    let ?s2 = "s1\<lparr>frames := frames s1 @ [firstFrame],
                   console := console s1 @ [LogReset (f_score firstFrame) (f_state firstFrame)]\<rparr>"
    from Inr assms da have "main_loop env ?s2 = (r, s')" by (simp add: loop_def)
    from main_loop_bounds [OF this] f assms show ?thesis by simp
  qed
qed

subsection \<open>Unfolding the examples\<close>

lemmas ex_defs = loop_def main_loop.simps ex_env_def scripted_env_def ex_agent_def ex_frame_def
    ex_response_def ex_no_call_def ex_action6_null_def ex_started_def failing_env_def
    action6_data_def number_or_null_def
    new_agent_def doAction_def pick_item_def parse_args_def
    request_payload_def Let_def or_null_def turn_step_def callOpenAI_def read_response_def
    submit_and_record_def before_submit_def latest_is_win_def latest_frame_def MAX_ACTIONS_def
    build_request_def flattenTurns_def flatten_last_def js_slice_def push_turn_def enforce_limit_def
    MESSAGE_LIMIT_def slice_0_200_def or_empty_def clearHistory_def turn_record_def tool_output_of_def
    user_message_of_def allowed_names_def current_grid_def initial_meta_def decision_calls_def

text \<open>
  The run of \<open>loop\<close> in the scripted world where the first turn ends in a frame with
  \<^verbatim>\<open>full_reset\<close> set and the second turn ends in \<^verbatim>\<open>WIN\<close>.
\<close>

lemma ex_run:
  "loop (ex_env (Suc 0) 2) ex_agent =
     (None,
      \<lparr>gameId = ''game'', cardId = Some ''card'', guid = ''g1'',
       frames = [ex_frame False False, ex_frame True False, ex_frame False True],
       history = [\<lparr>he_name = ''ACTION1'', he_reason = JStr ''try moving up'',
                   he_short_description = JStr [], he_hypothesis = JStr [],
                   he_aggregated_findings = JStr []\<rparr>],
       screenHistory = [()], actionCounter = 2,
       turns = turns (snd (loop (ex_env (Suc 0) 2) ex_agent)),
       console = [LogReset (Some 0) (Some ''NOT_FINISHED''),
                  LogAllowed [''ACTION1'', ''ACTION2'', ''ACTION3'', ''ACTION4'', ''RESET''],
                  LogTokens, LogAction ''ACTION1'' (Some 0) (Some ''NOT_FINISHED''),
                  LogAllowed [''ACTION1'', ''ACTION2'', ''ACTION3'', ''ACTION4'', ''RESET''],
                  LogTokens, LogAction ''ACTION1'' (Some 0) (Some ''WIN''), LogWin 2],
       world = (3, [0, 4])\<rparr>)"
  by (simp add: ex_defs)

text \<open>The second turn of that run, which ends in \<^verbatim>\<open>WIN\<close>.\<close>

lemma ex_second_turn:
  "actionCounter (snd (turn_step (ex_env (Suc 0) 2) ex_started)) < MAX_ACTIONS \<and>
   \<not> latest_is_win (snd (turn_step (ex_env (Suc 0) 2) ex_started)) \<and>
   fst (turn_step (ex_env (Suc 0) 2) (snd (turn_step (ex_env (Suc 0) 2) ex_started))) = None \<and>
   latest_is_win
     (snd (turn_step (ex_env (Suc 0) 2) (snd (turn_step (ex_env (Suc 0) 2) ex_started))))"
  by (simp add: ex_defs)

text \<open>
  Claim C3. \<open>MAX_ACTIONS\<close> is 400. A session started on a new agent issues at most
  \<open>MAX_ACTIONS\<close> decision calls and ends with an action counter of at most
  \<open>MAX_ACTIONS\<close>; the loop is a total function, so every session ends. The \<^verbatim>\<open>while\<close>
  loop stops without any call once the counter has reached \<open>MAX_ACTIONS\<close>, and it stops
  without any call, printing only the line about the win, when the latest frame is in
  state \<^verbatim>\<open>WIN\<close>. In particular, when a turn records a frame in state \<^verbatim>\<open>WIN\<close>, the loop
  ends with the outside world as that turn left it and with the one decision call of
  that turn: no further decision is requested.
\<close>

theorem loop_stops_within_budget:
  "MAX_ACTIONS = 400 \<and>
   decision_calls (console (snd (loop env (new_agent gid cid w)))) \<le> MAX_ACTIONS \<and>
   actionCounter (snd (loop env (new_agent gid cid w))) \<le> MAX_ACTIONS \<and>
   (MAX_ACTIONS \<le> actionCounter s \<longrightarrow> main_loop env s = (None, s)) \<and>
   (actionCounter s < MAX_ACTIONS \<and> latest_is_win s \<longrightarrow>
      main_loop env s = (None, s\<lparr>console := console s @ [LogWin (actionCounter s)]\<rparr>)) \<and>
   (actionCounter s < MAX_ACTIONS \<and> \<not> latest_is_win s \<and>
    turn_step env s = (None, s') \<and> latest_is_win s' \<longrightarrow>
      fst (main_loop env s) = None \<and>
      world (snd (main_loop env s)) = world s' \<and>
      decision_calls (console (snd (main_loop env s))) = Suc (decision_calls (console s)))"
proof -
  have "loop env (new_agent gid cid w) =
          (fst (loop env (new_agent gid cid w)), snd (loop env (new_agent gid cid w)))"
    by simp
  from loop_bounds [OF this]
  have "decision_calls (console (snd (loop env (new_agent gid cid w)))) \<le> MAX_ACTIONS"
    and "actionCounter (snd (loop env (new_agent gid cid w))) \<le> MAX_ACTIONS"
    by (simp_all add: new_agent_def)
  moreover have "MAX_ACTIONS \<le> actionCounter s \<longrightarrow> main_loop env s = (None, s)"
    by (simp add: main_loop.simps)
  moreover have "actionCounter s < MAX_ACTIONS \<and> latest_is_win s \<longrightarrow>
      main_loop env s = (None, s\<lparr>console := console s @ [LogWin (actionCounter s)]\<rparr>)"
    by (simp add: main_loop.simps)
  moreover have "fst (main_loop env s) = None \<and>
      world (snd (main_loop env s)) = world s' \<and>
      decision_calls (console (snd (main_loop env s))) = Suc (decision_calls (console s))"
    if h: "actionCounter s < MAX_ACTIONS \<and> \<not> latest_is_win s \<and>
           turn_step env s = (None, s') \<and> latest_is_win s'"
  proof -
    from h have "main_loop env s = main_loop env s'"
      by (subst main_loop.simps) simp
    moreover have "main_loop env s' =
        (None, if actionCounter s' < MAX_ACTIONS
               then s'\<lparr>console := console s' @ [LogWin (actionCounter s')]\<rparr> else s')"
      using h by (subst main_loop.simps) simp
    moreover from h have "turn_step env s = (None, s')" by simp
    then have "decision_calls (console s') = Suc (decision_calls (console s))"
      by (rule turn_step_decision_calls)
    ultimately show ?thesis by simp
  qed
  ultimately show ?thesis by (simp add: MAX_ACTIONS_def)
qed

theorem loop_stops_within_budget_witness:
  "decision_calls (console (snd (loop (ex_env (Suc 0) 2) ex_agent))) = 2 \<and>
   actionCounter (snd (loop (ex_env (Suc 0) 2) ex_agent)) < MAX_ACTIONS \<and>
   latest_is_win (snd (loop (ex_env (Suc 0) 2) ex_agent)) \<and>
   main_loop (ex_env (Suc 0) 2) (snd (loop (ex_env (Suc 0) 2) ex_agent))
     = (None, (snd (loop (ex_env (Suc 0) 2) ex_agent))\<lparr>console :=
                 console (snd (loop (ex_env (Suc 0) 2) ex_agent)) @ [LogWin 2]\<rparr>) \<and>
   MAX_ACTIONS \<le> actionCounter (ex_agent\<lparr>actionCounter := 400\<rparr>) \<and>
   main_loop (ex_env (Suc 0) 2) (ex_agent\<lparr>actionCounter := 400\<rparr>)
     = (None, ex_agent\<lparr>actionCounter := 400\<rparr>) \<and>
   fst (main_loop (ex_env (Suc 0) 2) (snd (turn_step (ex_env (Suc 0) 2) ex_started))) = None \<and>
   decision_calls (console (snd (main_loop (ex_env (Suc 0) 2)
       (snd (turn_step (ex_env (Suc 0) 2) ex_started))))) =
     Suc (decision_calls (console (snd (turn_step (ex_env (Suc 0) 2) ex_started))))"
proof -
  let ?S = "snd (loop (ex_env (Suc 0) 2) ex_agent)"
  let ?E = "ex_env (Suc 0) 2"
  let ?S1 = "snd (turn_step ?E ex_started)"
  let ?S2 = "snd (turn_step ?E ?S1)"
  from ex_second_turn have t: "turn_step ?E ?S1 = (None, ?S2)"
    by (metis prod.collapse)
  from loop_stops_within_budget
         [of ?E "''game''" "Some ''card''" "(0, [])" ?S1 ?S2] ex_second_turn t
  have m3: "fst (main_loop ?E ?S1) = None \<and>
            decision_calls (console (snd (main_loop ?E ?S1))) =
              Suc (decision_calls (console ?S1))"
    by blast
  have dc: "decision_calls (console ?S) = 2"
    by (subst ex_run) (simp add: decision_calls_def)
  have w: "latest_is_win ?S"
    by (subst ex_run) (simp add: latest_is_win_def latest_frame_def ex_frame_def)
  have ac: "actionCounter ?S = 2"
    by (subst ex_run) simp
  have lt: "actionCounter ?S < MAX_ACTIONS"
    unfolding ac MAX_ACTIONS_def by simp
  have ge: "MAX_ACTIONS \<le> actionCounter (ex_agent\<lparr>actionCounter := 400\<rparr>)"
    by (simp add: MAX_ACTIONS_def)
  from loop_stops_within_budget
         [of "ex_env (Suc 0) 2" "''game''" "Some ''card''" "(0, [])" ?S]
  have "actionCounter ?S < MAX_ACTIONS \<and> latest_is_win ?S \<longrightarrow>
      main_loop (ex_env (Suc 0) 2) ?S = (None, ?S\<lparr>console := console ?S @ [LogWin (actionCounter ?S)]\<rparr>)"
    by blast
  with lt w have m1: "main_loop (ex_env (Suc 0) 2) ?S
      = (None, ?S\<lparr>console := console ?S @ [LogWin (actionCounter ?S)]\<rparr>)"
    by blast
  from loop_stops_within_budget
         [of "ex_env (Suc 0) 2" "''game''" "Some ''card''" "(0, [])"
             "ex_agent\<lparr>actionCounter := 400\<rparr>"] ge
  have m2: "main_loop (ex_env (Suc 0) 2) (ex_agent\<lparr>actionCounter := 400\<rparr>)
     = (None, ex_agent\<lparr>actionCounter := 400\<rparr>)"
    by blast
  from dc lt w m1 m2 m3 ge show ?thesis
    unfolding ac by blast
qed

subsection \<open>A full reset and the window\<close>

text \<open>
  The first turn of the scripted world, from the agent as the initial \<^verbatim>\<open>RESET\<close> leaves
  it: the backend answers with a frame that has \<^verbatim>\<open>full_reset\<close> set. The same turn in the
  world whose backend throws.
\<close>

lemma ex_turn:
  "turn_step (ex_env (Suc 0) 2) ex_started =
     (None,
      \<lparr>gameId = ''game'', cardId = Some ''card'', guid = ''g1'',
       frames = [ex_frame False False, ex_frame True False], history = [], screenHistory = [],
       actionCounter = 1,
       turns = [[UserMessage \<lparr>um_allowed = [''ACTION1'', ''ACTION2'', ''ACTION3'', ''ACTION4'',
                                              ''RESET''],
                                um_grids = [], um_image = ()\<rparr>,
                 OutputItem \<lparr>item_type = ''reasoning'', arguments = NoArguments,
                               call_id = None\<rparr>,
                 OutputItem \<lparr>item_type = ''function_call'',
                               arguments = Parses (JObj [(''reason'', JStr ''try moving up''),
                                                         (''action'', JStr ''ACTION1'')]),
                               call_id = Some ''c1''\<rparr>,
                 ToolOutput \<lparr>to_call_id = ''c1'', to_action = ''ACTION1'', to_xy = None,
                               to_score = 0, to_state = ''NOT_FINISHED'',
                               to_full_reset = True\<rparr>]],
       console = [LogReset (Some 0) (Some ''NOT_FINISHED''),
                  LogAllowed [''ACTION1'', ''ACTION2'', ''ACTION3'', ''ACTION4'', ''RESET''],
                  LogTokens, LogAction ''ACTION1'' (Some 0) (Some ''NOT_FINISHED'')],
       world = (2, [0])\<rparr>)"
  by (simp add: ex_defs)

lemma ex_failing_turn:
  "turn_step failing_env ex_started =
     (Some (Thrown ''timeout''),
      \<lparr>gameId = ''game'', cardId = Some ''card'', guid = ''g1'',
       frames = [ex_frame False False],
       history = [\<lparr>he_name = ''ACTION1'', he_reason = JStr ''try moving up'',
                   he_short_description = JStr [], he_hypothesis = JStr [],
                   he_aggregated_findings = JStr []\<rparr>],
       screenHistory = [()], actionCounter = 0, turns = [],
       console = [LogReset (Some 0) (Some ''NOT_FINISHED''),
                  LogAllowed [''ACTION1'', ''ACTION2'', ''ACTION3'', ''ACTION4'', ''RESET''],
                  LogTokens],
       world = (Suc 0, [0])\<rparr>)"
  by (simp add: ex_defs)

text \<open>
  What the handler of a full reset does in every world: after a turn that records a
  frame with \<^verbatim>\<open>full_reset\<close> set, \<^verbatim>\<open>history\<close> and \<^verbatim>\<open>screenHistory\<close> are empty, while the
  turn has been pushed onto \<^verbatim>\<open>turns\<close> as after any other turn; the flattened window is
  not empty and ends with the tool output of that turn, and the next request to the
  model has this window, followed by the new user message, as its input.
\<close>

lemma full_reset_leaves_turns:
  assumes "turn_step env s = (None, s')"
    and "f_full_reset (last (frames s')) = Some True"
  shows "history s' = [] \<and> screenHistory s' = [] \<and>
         (\<exists>d. turns s' = push_turn MESSAGE_LIMIT (turns s) (turn_record d (last (frames s'))) \<and>
              last (flattenTurns s') = ToolOutput (tool_output_of d (last (frames s')))) \<and>
         flattenTurns s' \<noteq> [] \<and>
         cp_input (build_request lf cur s') =
           flattenTurns s' @ [UserMessage (user_message_of lf cur)]"
proof -
  from turn_step_ok [OF assms(1)] obtain d nxt where
    fr: "frames s' = frames s @ [nxt]"
    and tu: "turns s' = push_turn MESSAGE_LIMIT (turns s) (turn_record d nxt)"
    and hi: "history s' = (if f_full_reset nxt = Some True then []
                           else history s @ [d_historyEntry d])"
    and sc: "screenHistory s' =
               (if f_full_reset nxt = Some True then []
                else screenHistory
                       (before_submit d (gridToPngBase64 env (current_grid (latest_frame s))) s))"
    by blast
  from fr have l: "last (frames s') = nxt" by simp
  have k: "0 < MESSAGE_LIMIT" by (simp add: MESSAGE_LIMIT_def)
  from push_turn_last [OF k, of "turns s" "turn_record d nxt"] tu
  have ne: "turns s' \<noteq> []" and lt: "last (turns s') = turn_record d nxt"
    by simp_all
  from flatten_last_last [OF k ne] lt turn_record_last [of d nxt]
  have fl: "flattenTurns s' \<noteq> []"
    and ll: "last (flattenTurns s') = ToolOutput (tool_output_of d nxt)"
    by (simp_all add: flattenTurns_def)
  have "cp_input (build_request lf cur s') =
          flattenTurns s' @ [UserMessage (user_message_of lf cur)]"
    by (simp add: build_request_def Let_def)
  with assms(2) l hi sc tu fl ll show ?thesis by auto
qed

text \<open>
  Claim C1 says that, after a frame with \<^verbatim>\<open>full_reset\<close> set has been recorded, the
  flattened window of the very next decision call is empty. The source does not do
  that. In the scripted run the frame recorded by the first turn has \<^verbatim>\<open>full_reset\<close> set,
  and the loop calls \<^verbatim>\<open>clearHistory\<close>: after that turn \<^verbatim>\<open>history\<close> and \<^verbatim>\<open>screenHistory\<close>
  are empty. But \<^verbatim>\<open>clearHistory\<close> leaves \<^verbatim>\<open>turns\<close>, the list that \<^verbatim>\<open>flattenTurns\<close> reads: the
  flattened window still has four messages (the user message, the two output items and
  the tool output of the first turn), and the world, which keeps the size of the window
  of every request to the model, has received a window of four messages with the
  request of the second turn.
\<close>

theorem full_reset_window_not_cleared:
  "map f_full_reset (frames (snd (loop (ex_env (Suc 0) 2) ex_agent)))
     = [Some False, Some True, Some False] \<and>
   snd (world (snd (loop (ex_env (Suc 0) 2) ex_agent))) = [0, 4] \<and>
   f_full_reset (last (frames (snd (turn_step (ex_env (Suc 0) 2) ex_started)))) = Some True \<and>
   history (snd (turn_step (ex_env (Suc 0) 2) ex_started)) = [] \<and>
   screenHistory (snd (turn_step (ex_env (Suc 0) 2) ex_started)) = [] \<and>
   length (flattenTurns (snd (turn_step (ex_env (Suc 0) 2) ex_started))) = 4"
  by (subst (1 2) ex_run, subst (1 2 3 4) ex_turn)
     (simp add: ex_frame_def flattenTurns_def flatten_last_def js_slice_def MESSAGE_LIMIT_def)

subsection \<open>A turn is recorded after its submission\<close>

text \<open>
  Claim C8. A turn that ends with an error, thrown by the request to the model or by
  the submission, leaves \<^verbatim>\<open>turns\<close> as it was. A turn that ends without error has obtained
  a decision and a response of the backend to its submission, and has pushed exactly
  the record of that decision and that response. In particular, when the decision has
  been obtained and the submission throws, the turn ends with that error and the window
  is unchanged. (The history entry and the screen of the turn are kept before the
  submission; they are not part of the window.)
\<close>

theorem turn_recorded_after_submission:
  assumes "turn_step env s = (r, s')"
  shows "(r \<noteq> None \<longrightarrow> turns s' = turns s) \<and>
         (r = None \<longrightarrow>
            (\<exists>d s1 nxt s2.
               callOpenAI env (latest_frame s)
                 (if screenHistory s \<noteq> [] then Some (last (screenHistory s)) else None)
                 (gridToPngBase64 env (current_grid (latest_frame s))) s = (Inr d, s1) \<and>
               doAction env (d_actionName d) (Some (d_meta d)) (d_actionData d)
                 (before_submit d (gridToPngBase64 env (current_grid (latest_frame s))) s1)
                 = (Inr nxt, s2) \<and>
               turns s' = push_turn MESSAGE_LIMIT (turns s) (turn_record d nxt))) \<and>
         (\<forall>d s1 e s2.
            callOpenAI env (latest_frame s)
              (if screenHistory s \<noteq> [] then Some (last (screenHistory s)) else None)
              (gridToPngBase64 env (current_grid (latest_frame s))) s = (Inr d, s1) \<and>
            doAction env (d_actionName d) (Some (d_meta d)) (d_actionData d)
              (before_submit d (gridToPngBase64 env (current_grid (latest_frame s))) s1)
              = (Inl e, s2)
            \<longrightarrow> r = Some e \<and> s' = s2 \<and> turns s' = turns s)"
proof -
  have a: "r \<noteq> None \<longrightarrow> turns s' = turns s"
    using assms turn_step_error [of env s _ s'] by (cases r) auto
  have b: "r = None \<longrightarrow>
            (\<exists>d s1 nxt s2.
               callOpenAI env (latest_frame s)
                 (if screenHistory s \<noteq> [] then Some (last (screenHistory s)) else None)
                 (gridToPngBase64 env (current_grid (latest_frame s))) s = (Inr d, s1) \<and>
               doAction env (d_actionName d) (Some (d_meta d)) (d_actionData d)
                 (before_submit d (gridToPngBase64 env (current_grid (latest_frame s))) s1)
                 = (Inr nxt, s2) \<and>
               turns s' = push_turn MESSAGE_LIMIT (turns s) (turn_record d nxt))"
    using assms turn_step_ok [of env s s'] by blast
  have c: "r = Some e \<and> s' = s2 \<and> turns s' = turns s"
    if h: "callOpenAI env (latest_frame s)
              (if screenHistory s \<noteq> [] then Some (last (screenHistory s)) else None)
              (gridToPngBase64 env (current_grid (latest_frame s))) s = (Inr d, s1) \<and>
            doAction env (d_actionName d) (Some (d_meta d)) (d_actionData d)
              (before_submit d (gridToPngBase64 env (current_grid (latest_frame s))) s1)
              = (Inl e, s2)" for d s1 e s2
  proof -
    from h assms have "r = Some e \<and> s' = s2"
      by (auto simp: turn_step_def submit_and_record_def Let_def)
    with a show ?thesis by simp
  qed
  from a b c show ?thesis by blast
qed

theorem turn_recorded_after_submission_witness:
  "turn_step failing_env ex_started
     = (Some (Thrown ''timeout''), snd (turn_step failing_env ex_started)) \<and>
   turns (snd (turn_step failing_env ex_started)) = turns ex_started \<and>
   turn_step (ex_env (Suc 0) 2) ex_started
     = (None, snd (turn_step (ex_env (Suc 0) 2) ex_started)) \<and>
   length (turns (snd (turn_step (ex_env (Suc 0) 2) ex_started))) = 1"
proof -
  have t1: "turn_step failing_env ex_started
     = (Some (Thrown ''timeout''), snd (turn_step failing_env ex_started))"
    by (subst (1 2) ex_failing_turn) simp
  have t2: "turn_step (ex_env (Suc 0) 2) ex_started
     = (None, snd (turn_step (ex_env (Suc 0) 2) ex_started))"
    by (subst (1 2) ex_turn) simp
  have l: "length (turns (snd (turn_step (ex_env (Suc 0) 2) ex_started))) = 1"
    by (subst ex_turn) simp
  from turn_recorded_after_submission [OF t1] turn_recorded_after_submission [OF t2] t1 t2 l
  show ?thesis by simp
qed

subsection \<open>What a full reset leaves alone\<close>

text \<open>
  No function of the loop reads \<^verbatim>\<open>history\<close> or \<^verbatim>\<open>screenHistory\<close> for anything but
  these two lists themselves: replacing them in the state changes neither the outcome
  of a call nor any other field of the state it returns.
\<close>

lemma request_payload_history:
  "request_payload a m d (s\<lparr>history := h, screenHistory := sh\<rparr>) = request_payload a m d s"
  by (auto simp: request_payload_def)

lemma doAction_history:
  "doAction env a m d (s\<lparr>history := h, screenHistory := sh\<rparr>) =
     (fst (doAction env a m d s), (snd (doAction env a m d s))\<lparr>history := h, screenHistory := sh\<rparr>)"
proof -
  obtain res w where
    p: "arc_post env (world s) (''/api/cmd/'' @ a) (request_payload a m d s) = (res, w)"
    by (cases "arc_post env (world s) (''/api/cmd/'' @ a) (request_payload a m d s)") blast
  then show ?thesis
    by (cases res)
       (simp_all add: doAction_def request_payload_history Let_def option.case_eq_if)
qed

lemma read_response_history:
  "read_response lf um resp (s\<lparr>history := h, screenHistory := sh\<rparr>) =
     (fst (read_response lf um resp s),
      (snd (read_response lf um resp s))\<lparr>history := h, screenHistory := sh\<rparr>)"
  by (cases "slice_0_200 (or_empty (get_prop (pk_args (pick_function_call (gameId s)
         (case resp_output resp of None \<Rightarrow> [] | Some its \<Rightarrow> its))) ''reason''))")
     (simp_all add: read_response_def Let_def)

lemma build_request_history:
  "build_request lf c (s\<lparr>history := h, screenHistory := sh\<rparr>) = build_request lf c s"
  by (simp add: build_request_def flattenTurns_def)

lemma callOpenAI_history:
  "callOpenAI env lf p c (s\<lparr>history := h, screenHistory := sh\<rparr>) =
     (fst (callOpenAI env lf p' c s),
      (snd (callOpenAI env lf p' c s))\<lparr>history := h, screenHistory := sh\<rparr>)"
proof -
  obtain res w where
    p: "responses_create env (world s) (build_request lf c s) = (res, w)"
    by (cases "responses_create env (world s) (build_request lf c s)") blast
  show ?thesis
  proof (cases res)
    case (Inl e)
    with p show ?thesis
      by (simp add: callOpenAI_def build_request_history Let_def)
  next
    case (Inr resp)
    let ?s1 = "s\<lparr>console := console s @ [LogAllowed (allowed_names lf)], world := w\<rparr>"
    have "?s1\<lparr>history := h, screenHistory := sh\<rparr> =
          s\<lparr>history := h, screenHistory := sh,
            console := console s @ [LogAllowed (allowed_names lf)], world := w\<rparr>"
      by simp
    with Inr p read_response_history [where s = ?s1 and lf = lf and um = "user_message_of lf c"
                                      and resp = resp and h = h and sh = sh]
    show ?thesis
      by (simp add: callOpenAI_def build_request_history Let_def)
  qed
qed


lemma clearHistory_set [simp]:
  "clearHistory (s\<lparr>history := h, screenHistory := sh\<rparr>) = clearHistory s"
  by (simp add: clearHistory_def)

lemma clearHistory_eqD:
  "clearHistory a = clearHistory b \<Longrightarrow>
     a = b\<lparr>history := history a, screenHistory := screenHistory a\<rparr>"
proof -
  assume "clearHistory a = clearHistory b"
  then have "(clearHistory a)\<lparr>history := history a, screenHistory := screenHistory a\<rparr> =
             (clearHistory b)\<lparr>history := history a, screenHistory := screenHistory a\<rparr>"
    by simp
  then show ?thesis by (simp add: clearHistory_def)
qed

lemma submit_and_record_history:
  "fst (submit_and_record env d c (s\<lparr>history := h, screenHistory := sh\<rparr>))
     = fst (submit_and_record env d c s) \<and>
   clearHistory (snd (submit_and_record env d c (s\<lparr>history := h, screenHistory := sh\<rparr>)))
     = clearHistory (snd (submit_and_record env d c s))"
proof -
  let ?a = "d_actionName d" and ?m = "Some (d_meta d)" and ?x = "d_actionData d"
  define h1 where "h1 = h @ [d_historyEntry d]"
  define sh1 where "sh1 = (if length (sh @ [c]) > 10 then tl (sh @ [c]) else sh @ [c])"
  define h2 where "h2 = history s @ [d_historyEntry d]"
  define sh2 where "sh2 = (if length (screenHistory s @ [c]) > 10
                           then tl (screenHistory s @ [c]) else screenHistory s @ [c])"
  have b1: "before_submit d c (s\<lparr>history := h, screenHistory := sh\<rparr>)
      = s\<lparr>history := h1, screenHistory := sh1\<rparr>"
    by (simp add: before_submit_def h1_def sh1_def)
  have b2: "before_submit d c s = s\<lparr>history := h2, screenHistory := sh2\<rparr>"
    by (simp add: before_submit_def h2_def sh2_def)
  obtain r s2 where da: "doAction env ?a ?m ?x s = (r, s2)"
    by (cases "doAction env ?a ?m ?x s") blast
  have d1: "doAction env ?a ?m ?x (before_submit d c (s\<lparr>history := h, screenHistory := sh\<rparr>))
      = (r, s2\<lparr>history := h1, screenHistory := sh1\<rparr>)"
    unfolding b1 by (subst doAction_history) (simp add: da)
  have d2: "doAction env ?a ?m ?x (before_submit d c s)
      = (r, s2\<lparr>history := h2, screenHistory := sh2\<rparr>)"
    unfolding b2 by (subst doAction_history) (simp add: da)
  show ?thesis
  proof (cases r)
    case (Inl e)
    with d1 d2 show ?thesis by (simp add: submit_and_record_def)
  next
    case (Inr nxt)
    with d1 d2 show ?thesis
      by (simp add: submit_and_record_def Let_def clearHistory_def)
  qed
qed

lemma latest_frame_history [simp]:
  "latest_frame (s\<lparr>history := h, screenHistory := sh\<rparr>) = latest_frame s"
  by (simp add: latest_frame_def)

lemma latest_is_win_history [simp]:
  "latest_is_win (s\<lparr>history := h, screenHistory := sh\<rparr>) = latest_is_win s"
  by (simp add: latest_is_win_def)

lemma turn_step_history:
  "fst (turn_step env (s\<lparr>history := h, screenHistory := sh\<rparr>)) = fst (turn_step env s) \<and>
   clearHistory (snd (turn_step env (s\<lparr>history := h, screenHistory := sh\<rparr>)))
     = clearHistory (snd (turn_step env s))"
proof -
  let ?cur = "gridToPngBase64 env (current_grid (latest_frame s))"
  let ?prev = "if screenHistory s \<noteq> [] then Some (last (screenHistory s)) else None"
  let ?prev' = "if sh \<noteq> [] then Some (last sh) else None"
  obtain r1 s1 where c: "callOpenAI env (latest_frame s) ?prev ?cur s = (r1, s1)"
    by (cases "callOpenAI env (latest_frame s) ?prev ?cur s") blast
  have c': "callOpenAI env (latest_frame s) p ?cur (s\<lparr>history := h, screenHistory := sh\<rparr>)
      = (r1, s1\<lparr>history := h, screenHistory := sh\<rparr>)" for p
    by (subst callOpenAI_history [where p' = ?prev]) (simp add: c)
  show ?thesis
  proof (cases r1)
    case (Inl e)
    with c c' show ?thesis by (simp add: turn_step_def Let_def)
  next
    case (Inr d)
    with c c' submit_and_record_history [where env = env and d = d and c = ?cur and s = s1
                                                and h = h and sh = sh] show ?thesis
      by (simp add: turn_step_def Let_def)
  qed
qed

lemma main_loop_history:
  "fst (main_loop env (s\<lparr>history := h, screenHistory := sh\<rparr>)) = fst (main_loop env s) \<and>
   clearHistory (snd (main_loop env (s\<lparr>history := h, screenHistory := sh\<rparr>)))
     = clearHistory (snd (main_loop env s))"
proof (induction env s arbitrary: h sh rule: main_loop.induct)
  case (1 env s)
  let ?t = "s\<lparr>history := h, screenHistory := sh\<rparr>"
  show ?case
  proof (cases "actionCounter s < MAX_ACTIONS")
    case False
    then show ?thesis by (simp add: main_loop.simps)
  next
    case lt: True
    show ?thesis
    proof (cases "latest_is_win s")
      case True
      with lt show ?thesis by (simp add: main_loop.simps clearHistory_def)
    next
      case nw: False
      obtain e s1 where t: "turn_step env s = (e, s1)"
        by (cases "turn_step env s") blast
      obtain e' s1' where t': "turn_step env ?t = (e', s1')"
        by (cases "turn_step env ?t") blast
      from turn_step_history [where env = env and s = s and h = h and sh = sh] t t'
      have e: "e' = e" and ch: "clearHistory s1' = clearHistory s1" by simp_all
      show ?thesis
      proof (cases e)
        case (Some err)
        with lt nw t t' e ch show ?thesis by (simp add: main_loop.simps)
      next
        case None
        from clearHistory_eqD [OF ch]
        have s1': "s1' = s1\<lparr>history := history s1', screenHistory := screenHistory s1'\<rparr>" .
        from None lt nw t have m: "main_loop env s = main_loop env s1"
          by (subst main_loop.simps) simp
        from None lt nw t' e have m': "main_loop env ?t = main_loop env s1'"
          by (subst main_loop.simps) simp
        from "1.IH" [OF lt nw t [symmetric] None,
                     where h = "history s1'" and sh = "screenHistory s1'"] s1' m m'
        show ?thesis by simp
      qed
    qed
  qed
qed

text \<open>
  Claim C9. \<open>clearHistory\<close> sets \<^verbatim>\<open>history\<close> and \<^verbatim>\<open>screenHistory\<close> to the empty list and
  leaves every other field: the counter, the frames, the turns and the token are the
  same, the test for \<^verbatim>\<open>WIN\<close> gives the same answer, and the rest of the session runs
  the same from the cleared state: the loop ends with the same outcome and in a state
  that differs at most in the two lists. A turn that records a frame with
  \<^verbatim>\<open>full_reset\<close> set has still added one to the counter and appended that frame to the
  frames.
\<close>

theorem full_reset_changes_history_only:
  "clearHistory s = s\<lparr>history := [], screenHistory := []\<rparr> \<and>
   actionCounter (clearHistory s) = actionCounter s \<and>
   frames (clearHistory s) = frames s \<and>
   turns (clearHistory s) = turns s \<and>
   guid (clearHistory s) = guid s \<and>
   latest_is_win (clearHistory s) = latest_is_win s \<and>
   fst (main_loop env (clearHistory s)) = fst (main_loop env s) \<and>
   clearHistory (snd (main_loop env (clearHistory s))) = clearHistory (snd (main_loop env s)) \<and>
   (turn_step env s = (None, s') \<and> f_full_reset (last (frames s')) = Some True \<longrightarrow>
      actionCounter s' = Suc (actionCounter s) \<and>
      frames s' = frames s @ [last (frames s')] \<and>
      history s' = [] \<and> screenHistory s' = [])"
proof -
  have "actionCounter s' = Suc (actionCounter s) \<and>
      frames s' = frames s @ [last (frames s')] \<and>
      history s' = [] \<and> screenHistory s' = []"
    if h: "turn_step env s = (None, s') \<and> f_full_reset (last (frames s')) = Some True"
  proof -
    from h have t: "turn_step env s = (None, s')" by simp
    from turn_step_ok [OF t] obtain d nxt where
      "frames s' = frames s @ [nxt]" "actionCounter s' = Suc (actionCounter s)"
      "history s' = (if f_full_reset nxt = Some True then []
                     else history s @ [d_historyEntry d])"
      "screenHistory s' =
         (if f_full_reset nxt = Some True then []
          else screenHistory
                 (before_submit d (gridToPngBase64 env (current_grid (latest_frame s))) s))"
      by blast
    with h show ?thesis by simp
  qed
  with main_loop_history [where env = env and s = s and h = "[]" and sh = "[]"] show ?thesis
    by (simp add: clearHistory_def)
qed

theorem full_reset_changes_history_only_witness:
  "turn_step (ex_env (Suc 0) 2) ex_started
     = (None, snd (turn_step (ex_env (Suc 0) 2) ex_started)) \<and>
   f_full_reset (last (frames (snd (turn_step (ex_env (Suc 0) 2) ex_started)))) = Some True \<and>
   actionCounter (snd (turn_step (ex_env (Suc 0) 2) ex_started)) = Suc (actionCounter ex_started) \<and>
   length (frames (snd (turn_step (ex_env (Suc 0) 2) ex_started))) = 2"
proof -
  let ?S = "snd (turn_step (ex_env (Suc 0) 2) ex_started)"
  have t: "turn_step (ex_env (Suc 0) 2) ex_started = (None, ?S)"
    by (subst (1 2) ex_turn) simp
  have f: "f_full_reset (last (frames ?S)) = Some True"
    by (subst ex_turn) (simp add: ex_frame_def)
  have l: "length (frames ?S) = 2"
    by (subst ex_turn) simp
  from full_reset_changes_history_only
         [where s = ex_started and env = "ex_env (Suc 0) 2" and s' = ?S] t f l
  show ?thesis by blast
qed

subsection \<open>Reading the decision\<close>

lemma pick_function_call_find:
  "pick_function_call gid items =
     (case find (\<lambda>i. item_type i = ''function_call'') items of
        None \<Rightarrow> \<lparr>pk_actionName = ''RESET'', pk_args = JObj [], pk_functionCallId = None,
                  pk_actionData = None, pk_warnings = []\<rparr>
      | Some it \<Rightarrow> pick_item gid it)"
  by (induction items) simp_all

lemma pick_item_no_action:
  assumes "\<forall>a. get_prop (parse_args (arguments it)) ''action'' \<noteq> Some (JStr a)"
  shows "pick_item gid it =
     \<lparr>pk_actionName = ''RESET'', pk_args = parse_args (arguments it),
      pk_functionCallId = or_null (call_id it), pk_actionData = None, pk_warnings = []\<rparr>"
proof -
  have "(case get_prop (parse_args (arguments it)) ''action'' of
           Some (JStr a) \<Rightarrow> a | _ \<Rightarrow> ''RESET'') = ''RESET''"
    using assms by (auto split: option.splits json.splits)
  then show ?thesis by (simp add: pick_item_def Let_def)
qed

lemma pick_item_action6_invalid:
  assumes "get_prop (parse_args (arguments it)) ''action'' = Some (JStr ''ACTION6'')"
    and "(\<forall>n. get_prop (parse_args (arguments it)) ''x'' \<noteq> Some (JNum n)) \<or>
         (\<forall>n. get_prop (parse_args (arguments it)) ''y'' \<noteq> Some (JNum n))"
  shows "pick_item gid it =
     \<lparr>pk_actionName = ''ACTION6'', pk_args = parse_args (arguments it),
      pk_functionCallId = or_null (call_id it), pk_actionData = Some (0, 0),
      pk_warnings = [Action6WithoutXY gid]\<rparr>"
proof -
  from assms(2)
  have "number_or_null (get_prop (parse_args (arguments it)) ''x'') = None \<or>
        number_or_null (get_prop (parse_args (arguments it)) ''y'') = None"
    by (auto simp: number_or_null_def split: option.splits json.splits)
  then have "action6_data gid (parse_args (arguments it)) = (Some (0, 0), [Action6WithoutXY gid])"
    by (auto simp: action6_data_def Let_def split: option.splits)
  with assms(1) show ?thesis by (simp add: pick_item_def Let_def)
qed

lemma callOpenAI_Inr:
  assumes "responses_create env (world s) (build_request lf cur s) = (Inr resp, w)"
  shows "callOpenAI env lf prev cur s =
           read_response lf (user_message_of lf cur) resp
             (s\<lparr>console := console s @ [LogAllowed (allowed_names lf)], world := w\<rparr>)"
  using assms by (simp add: callOpenAI_def Let_def)

lemma read_response_Inr:
  assumes "slice_0_200 (or_empty (get_prop (pk_args pk) ''reason'')) = Inr pv"
    and "pk = pick_function_call (gameId s)
                (case resp_output resp of None \<Rightarrow> [] | Some its \<Rightarrow> its)"
  shows "\<exists>d. read_response lf um resp s =
               (Inr d, s\<lparr>console := console s @ LogTokens # map Warn (pk_warnings pk)\<rparr>) \<and>
             d_actionName d = pk_actionName pk \<and> d_actionData d = pk_actionData pk \<and>
             d_functionCallId d = pk_functionCallId pk \<and> d_userMessage d = um \<and>
             d_responseOutputItems d = resp_output resp"
  using assms by (simp add: read_response_def Let_def)

lemma turn_step_Inr:
  assumes "callOpenAI env (latest_frame s)
             (if screenHistory s \<noteq> [] then Some (last (screenHistory s)) else None)
             (gridToPngBase64 env (current_grid (latest_frame s))) s = (Inr d, s1)"
  shows "turn_step env s =
           submit_and_record env d (gridToPngBase64 env (current_grid (latest_frame s))) s1"
  using assms by (simp add: turn_step_def Let_def)

text \<open>
  The one way in which reading a response can throw: \<^verbatim>\<open>args.reason\<close> is a truthy value
  without \<^verbatim>\<open>slice\<close> (here the number 5). The call ends with a \<^verbatim>\<open>TypeError\<close> and the turn
  submits nothing: the backend has still answered one request only.
\<close>

lemma reason_without_slice_throws:
  "fst (turn_step (scripted_env ex_bad_reason 9 9) ex_started) = Some TypeError \<and>
   fst (world (snd (turn_step (scripted_env ex_bad_reason 9 9) ex_started))) = Suc 0"
  by (simp add: ex_defs ex_bad_reason_def)

text \<open>
  Claim C5, as stated, fails on the warning. In the scripted world whose model answers
  without a function call, the turn chooses \<^verbatim>\<open>RESET\<close>, submits it and ends without
  error, and the console holds the line of the initial reset, the allowed actions, the
  token line and the line of the submitted \<^verbatim>\<open>RESET\<close>: no warning has been printed. The
  only \<^verbatim>\<open>console.warn\<close> of the source is the one for \<^verbatim>\<open>ACTION6\<close> without coordinates.
\<close>

theorem missing_action_warning_counterexample:
  "fst (turn_step (scripted_env ex_no_call 9 9) ex_started) = None \<and>
   console (snd (turn_step (scripted_env ex_no_call 9 9) ex_started)) =
     [LogReset (Some 0) (Some ''NOT_FINISHED''),
      LogAllowed [''ACTION1'', ''ACTION2'', ''ACTION3'', ''ACTION4'', ''RESET''],
      LogTokens,
      LogAction ''RESET'' (Some 0) (Some ''NOT_FINISHED'')]"
  by (simp add: ex_defs)

text \<open>
  Claim C5, amended. When the response has no function call, or its first function call
  has arguments without a string \<^verbatim>\<open>action\<close> (and a \<^verbatim>\<open>reason\<close> that is absent, falsy, a
  string or an array), the decision is \<^verbatim>\<open>RESET\<close> without coordinates, the only lines
  printed while deciding are the allowed actions and the token line, so no warning, and
  the turn goes on to submit that decision.
\<close>

theorem missing_action_defaults_to_reset:
  assumes "responses_create env (world s)
             (build_request (latest_frame s)
                (gridToPngBase64 env (current_grid (latest_frame s))) s) = (Inr resp, w)"
    and "case find (\<lambda>i. item_type i = ''function_call'')
                (case resp_output resp of None \<Rightarrow> [] | Some its \<Rightarrow> its) of
           None \<Rightarrow> True
         | Some it \<Rightarrow>
             (\<forall>a. get_prop (parse_args (arguments it)) ''action'' \<noteq> Some (JStr a)) \<and>
             slice_0_200 (or_empty (get_prop (parse_args (arguments it)) ''reason''))
               \<noteq> Inl TypeError"
  shows "\<exists>d. d_actionName d = ''RESET'' \<and> d_actionData d = None \<and>
             turn_step env s =
               submit_and_record env d (gridToPngBase64 env (current_grid (latest_frame s)))
                 (s\<lparr>console := console s @ [LogAllowed (allowed_names (latest_frame s)),
                                               LogTokens],
                    world := w\<rparr>)"
proof -
  let ?lf = "latest_frame s"
  let ?cur = "gridToPngBase64 env (current_grid ?lf)"
  let ?prev = "if screenHistory s \<noteq> [] then Some (last (screenHistory s)) else None"
  let ?s1 = "s\<lparr>console := console s @ [LogAllowed (allowed_names ?lf)], world := w\<rparr>"
  let ?items = "case resp_output resp of None \<Rightarrow> [] | Some its \<Rightarrow> its"
  let ?pk = "pick_function_call (gameId ?s1) ?items"
  have pk: "pk_actionName ?pk = ''RESET'' \<and> pk_actionData ?pk = None \<and> pk_warnings ?pk = [] \<and>
            (\<exists>pv. slice_0_200 (or_empty (get_prop (pk_args ?pk) ''reason'')) = Inr pv)"
  proof (cases "find (\<lambda>i. item_type i = ''function_call'') ?items")
    case None
    then show ?thesis
      by (simp add: pick_function_call_find or_empty_def slice_0_200_def)
  next
    case (Some it)
    with assms(2)
    have na: "\<forall>a. get_prop (parse_args (arguments it)) ''action'' \<noteq> Some (JStr a)"
      and rs: "slice_0_200 (or_empty (get_prop (parse_args (arguments it)) ''reason''))
                 \<noteq> Inl TypeError"
      by simp_all
    from rs obtain pv where
      "slice_0_200 (or_empty (get_prop (parse_args (arguments it)) ''reason'')) = Inr pv"
      by (cases "slice_0_200 (or_empty (get_prop (parse_args (arguments it)) ''reason''))")
         (auto simp: slice_0_200_def split: json.splits)
    with Some pick_item_no_action [OF na, of "gameId s"] show ?thesis
      by (simp add: pick_function_call_find)
  qed
  then obtain pv where sl: "slice_0_200 (or_empty (get_prop (pk_args ?pk) ''reason'')) = Inr pv"
    by blast
  from read_response_Inr [OF sl refl, of ?lf "user_message_of ?lf ?cur"] pk
  obtain d where rr: "read_response ?lf (user_message_of ?lf ?cur) resp ?s1 =
        (Inr d, ?s1\<lparr>console := console ?s1 @ [LogTokens]\<rparr>)"
    and dn: "d_actionName d = ''RESET''" and dd: "d_actionData d = None"
    by auto
  have st: "?s1\<lparr>console := console ?s1 @ [LogTokens]\<rparr> =
            s\<lparr>console := console s @ [LogAllowed (allowed_names ?lf), LogTokens], world := w\<rparr>"
    by simp
  from rr callOpenAI_Inr [OF assms(1), of ?prev]
  have "callOpenAI env ?lf ?prev ?cur s = (Inr d, ?s1\<lparr>console := console ?s1 @ [LogTokens]\<rparr>)"
    by simp
  from turn_step_Inr [OF this]
  have ts: "turn_step env s =
      submit_and_record env d ?cur
        (s\<lparr>console := console s @ [LogAllowed (allowed_names ?lf), LogTokens], world := w\<rparr>)"
    by (simp only: st)
  with dn dd show ?thesis by blast
qed

theorem missing_action_defaults_to_reset_witness:
  "find (\<lambda>i. item_type i = ''function_call'')
     (case resp_output ex_no_call of None \<Rightarrow> [] | Some its \<Rightarrow> its) = None \<and>
   (\<exists>d. d_actionName d = ''RESET'' \<and> d_actionData d = None \<and>
        turn_step (scripted_env ex_no_call 9 9) ex_started =
          submit_and_record (scripted_env ex_no_call 9 9) d ()
            (ex_started\<lparr>console := console ex_started
                           @ [LogAllowed (allowed_names (latest_frame ex_started)), LogTokens],
                         world := (Suc 0, [0])\<rparr>)) \<and>
   find (\<lambda>i. item_type i = ''function_call'')
     (case resp_output ex_unparsable of None \<Rightarrow> [] | Some its \<Rightarrow> its)
     = Some \<lparr>item_type = ''function_call'', arguments = Unparsable, call_id = Some ''c5''\<rparr> \<and>
   (\<exists>d. d_actionName d = ''RESET'' \<and> d_actionData d = None \<and>
        turn_step (scripted_env ex_unparsable 9 9) ex_started =
          submit_and_record (scripted_env ex_unparsable 9 9) d ()
            (ex_started\<lparr>console := console ex_started
                           @ [LogAllowed (allowed_names (latest_frame ex_started)), LogTokens],
                         world := (Suc 0, [0])\<rparr>))"
proof -
  let ?E = "scripted_env ex_no_call 9 9"
  let ?F = "scripted_env ex_unparsable 9 9"
  have cr: "responses_create ?E (world ex_started)
     (build_request (latest_frame ex_started)
        (gridToPngBase64 ?E (current_grid (latest_frame ex_started))) ex_started)
     = (Inr ex_no_call, (Suc 0, [0]))"
    by (simp add: scripted_env_def ex_started_def build_request_def flattenTurns_def
          flatten_last_def js_slice_def Let_def)
  have cr': "responses_create ?F (world ex_started)
     (build_request (latest_frame ex_started)
        (gridToPngBase64 ?F (current_grid (latest_frame ex_started))) ex_started)
     = (Inr ex_unparsable, (Suc 0, [0]))"
    by (simp add: scripted_env_def ex_started_def build_request_def flattenTurns_def
          flatten_last_def js_slice_def Let_def)
  have fi: "find (\<lambda>i. item_type i = ''function_call'')
     (case resp_output ex_no_call of None \<Rightarrow> [] | Some its \<Rightarrow> its) = None"
    by (simp add: ex_no_call_def)
  have fi': "find (\<lambda>i. item_type i = ''function_call'')
     (case resp_output ex_unparsable of None \<Rightarrow> [] | Some its \<Rightarrow> its)
     = Some \<lparr>item_type = ''function_call'', arguments = Unparsable, call_id = Some ''c5''\<rparr>"
    by (simp add: ex_unparsable_def)
  have h: "case find (\<lambda>i. item_type i = ''function_call'')
                (case resp_output ex_no_call of None \<Rightarrow> [] | Some its \<Rightarrow> its) of
           None \<Rightarrow> True
         | Some it \<Rightarrow>
             (\<forall>a. get_prop (parse_args (arguments it)) ''action'' \<noteq> Some (JStr a)) \<and>
             slice_0_200 (or_empty (get_prop (parse_args (arguments it)) ''reason''))
               \<noteq> Inl TypeError"
    unfolding fi by simp
  have h': "case find (\<lambda>i. item_type i = ''function_call'')
                (case resp_output ex_unparsable of None \<Rightarrow> [] | Some its \<Rightarrow> its) of
           None \<Rightarrow> True
         | Some it \<Rightarrow>
             (\<forall>a. get_prop (parse_args (arguments it)) ''action'' \<noteq> Some (JStr a)) \<and>
             slice_0_200 (or_empty (get_prop (parse_args (arguments it)) ''reason''))
               \<noteq> Inl TypeError"
    unfolding fi' by (simp add: parse_args_def or_empty_def slice_0_200_def)
  have u: "gridToPngBase64 ?E (current_grid (latest_frame ex_started)) = ()"
    and u': "gridToPngBase64 ?F (current_grid (latest_frame ex_started)) = ()"
    by simp_all
  from missing_action_defaults_to_reset [OF cr h]
       missing_action_defaults_to_reset [OF cr' h'] fi fi'
  show ?thesis unfolding u u' by blast
qed

lemma submit_and_record_post:
  "\<exists>res w'.
     arc_post env (world s) (''/api/cmd/'' @ d_actionName d)
       (request_payload (d_actionName d) (Some (d_meta d)) (d_actionData d)
          (before_submit d c s)) = (res, w') \<and>
     world (snd (submit_and_record env d c s)) = w' \<and>
     fst (submit_and_record env d c s) = (case res of Inl e \<Rightarrow> Some e | Inr nxt \<Rightarrow> None)"
proof -
  let ?s1 = "before_submit d c s"
  let ?P = "request_payload (d_actionName d) (Some (d_meta d)) (d_actionData d) ?s1"
  have w: "world ?s1 = world s" by (simp add: before_submit_def)
  obtain res w' where p: "arc_post env (world s) (''/api/cmd/'' @ d_actionName d) ?P = (res, w')"
    by (cases "arc_post env (world s) (''/api/cmd/'' @ d_actionName d) ?P") blast
  have "world (snd (submit_and_record env d c s)) = w' \<and>
        fst (submit_and_record env d c s) = (case res of Inl e \<Rightarrow> Some e | Inr nxt \<Rightarrow> None)"
  proof (cases res)
    case (Inl e)
    with p w show ?thesis
      by (simp add: submit_and_record_def doAction_def Let_def)
  next
    case (Inr nxt)
    with p w show ?thesis
      by (cases "f_full_reset nxt = Some True")
         (simp_all add: submit_and_record_def doAction_def Let_def clearHistory_def)
  qed
  with p show ?thesis by blast
qed

text \<open>
  Invalid coordinates with a \<^verbatim>\<open>reason\<close> that can be sliced, in every world: when the first
  function call of the response chooses \<^verbatim>\<open>ACTION6\<close> and its \<^verbatim>\<open>x\<close> or its \<^verbatim>\<open>y\<close> is missing
  or not a number, the decision is \<^verbatim>\<open>ACTION6\<close> with the pair (0, 0), a warning is printed,
  the backend is sent a request at \<^verbatim>\<open>/api/cmd/ACTION6\<close> whose payload has \<^verbatim>\<open>x = 0\<close> and
  \<^verbatim>\<open>y = 0\<close>, and the turn ends as that request does.
\<close>

lemma invalid_coordinates_submitted:
  assumes "responses_create env (world s)
             (build_request (latest_frame s)
                (gridToPngBase64 env (current_grid (latest_frame s))) s) = (Inr resp, w)"
    and "find (\<lambda>i. item_type i = ''function_call'')
           (case resp_output resp of None \<Rightarrow> [] | Some its \<Rightarrow> its) = Some it"
    and "get_prop (parse_args (arguments it)) ''action'' = Some (JStr ''ACTION6'')"
    and "(\<forall>n. get_prop (parse_args (arguments it)) ''x'' \<noteq> Some (JNum n)) \<or>
         (\<forall>n. get_prop (parse_args (arguments it)) ''y'' \<noteq> Some (JNum n))"
    and "slice_0_200 (or_empty (get_prop (parse_args (arguments it)) ''reason'')) \<noteq> Inl TypeError"
  shows "\<exists>d P res w'.
           d_actionName d = ''ACTION6'' \<and> d_actionData d = Some (0, 0) \<and>
           turn_step env s =
             submit_and_record env d (gridToPngBase64 env (current_grid (latest_frame s)))
               (s\<lparr>console := console s @ [LogAllowed (allowed_names (latest_frame s)),
                                             LogTokens, Warn (Action6WithoutXY (gameId s))],
                  world := w\<rparr>) \<and>
           p_x P = Some 0 \<and> p_y P = Some 0 \<and>
           arc_post env w ''/api/cmd/ACTION6'' P = (res, w') \<and>
           world (snd (turn_step env s)) = w' \<and>
           fst (turn_step env s) = (case res of Inl e \<Rightarrow> Some e | Inr nxt \<Rightarrow> None)"
proof -
  let ?lf = "latest_frame s"
  let ?cur = "gridToPngBase64 env (current_grid ?lf)"
  let ?prev = "if screenHistory s \<noteq> [] then Some (last (screenHistory s)) else None"
  let ?s1 = "s\<lparr>console := console s @ [LogAllowed (allowed_names ?lf)], world := w\<rparr>"
  let ?pk = "pick_function_call (gameId ?s1)
               (case resp_output resp of None \<Rightarrow> [] | Some its \<Rightarrow> its)"
  have pk: "?pk = \<lparr>pk_actionName = ''ACTION6'', pk_args = parse_args (arguments it),
      pk_functionCallId = or_null (call_id it), pk_actionData = Some (0, 0),
      pk_warnings = [Action6WithoutXY (gameId s)]\<rparr>"
    using assms(2) pick_item_action6_invalid [OF assms(3,4), of "gameId s"]
    by (simp add: pick_function_call_find)
  from assms(5) obtain pv where
    "slice_0_200 (or_empty (get_prop (parse_args (arguments it)) ''reason'')) = Inr pv"
    by (cases "slice_0_200 (or_empty (get_prop (parse_args (arguments it)) ''reason''))")
       (auto simp: slice_0_200_def split: json.splits)
  with pk have sl: "slice_0_200 (or_empty (get_prop (pk_args ?pk) ''reason'')) = Inr pv"
    by simp
  from read_response_Inr [OF sl refl, of ?lf "user_message_of ?lf ?cur"] pk
  obtain d where rr: "read_response ?lf (user_message_of ?lf ?cur) resp ?s1 =
        (Inr d, ?s1\<lparr>console := console ?s1 @ [LogTokens, Warn (Action6WithoutXY (gameId s))]\<rparr>)"
    and dn: "d_actionName d = ''ACTION6''" and dd: "d_actionData d = Some (0, 0)"
    by auto
  have st: "?s1\<lparr>console := console ?s1 @ [LogTokens, Warn (Action6WithoutXY (gameId s))]\<rparr> =
            s\<lparr>console := console s @ [LogAllowed (allowed_names ?lf), LogTokens,
                                         Warn (Action6WithoutXY (gameId s))],
              world := w\<rparr>"
    by simp
  from rr callOpenAI_Inr [OF assms(1), of ?prev]
  have "callOpenAI env ?lf ?prev ?cur s =
          (Inr d, ?s1\<lparr>console := console ?s1 @ [LogTokens, Warn (Action6WithoutXY (gameId s))]\<rparr>)"
    by simp
  from turn_step_Inr [OF this]
  have ts: "turn_step env s =
      submit_and_record env d ?cur
        (s\<lparr>console := console s @ [LogAllowed (allowed_names ?lf), LogTokens,
                                      Warn (Action6WithoutXY (gameId s))],
           world := w\<rparr>)"
    by (simp only: st)
  let ?S1 = "s\<lparr>console := console s @ [LogAllowed (allowed_names ?lf), LogTokens,
                                          Warn (Action6WithoutXY (gameId s))],
               world := w\<rparr>"
  let ?P = "request_payload (d_actionName d) (Some (d_meta d)) (d_actionData d)
              (before_submit d ?cur ?S1)"
  from submit_and_record_post [of env ?S1 d ?cur] dn obtain res w' where
    po: "arc_post env w ''/api/cmd/ACTION6'' ?P = (res, w')"
    and wo: "world (snd (submit_and_record env d ?cur ?S1)) = w'"
    and ou: "fst (submit_and_record env d ?cur ?S1)
               = (case res of Inl e \<Rightarrow> Some e | Inr nxt \<Rightarrow> None)"
    by auto
  from dn dd have "p_x ?P = Some 0" and "p_y ?P = Some 0"
    by (simp_all add: request_payload_def)
  with dn dd ts po wo ou show ?thesis
    by (intro exI [of _ d] exI [of _ ?P] exI [of _ res] exI [of _ w']) simp
qed


end
